theory Spec2Isabelle
  imports Main "HOL-Library.Word"
begin

section \<open>Machine types\<close>

text \<open>
  The class \<open>pcl::PointCloud<pcl_cloud_span::Spannable<PurePointT>>\<close> of
  \<open>include/pcl_cloud_span/impl/point_cloud.h\<close> stores \<open>width\<close> and \<open>height\<close> as
  \<open>std::uint32_t\<close> and measures its buffer in \<open>std::size_t\<close> (64 bits on the LP64 targets
  of the library). \<open>pcl::index_t\<close> and \<open>pcl::uindex_t\<close> are declared by PCL itself
  (\<open>pcl/types.h\<close>), with its default of 32 bits, \<open>index_t\<close> signed: an \<open>index_t\<close> is kept
  as its 32-bit pattern and read with \<open>sint\<close> or \<open>scast\<close> where the sign matters. An
  \<open>int\<close> argument is a 32-bit pattern in the same way.
\<close>

type_synonym size_t = "64 word"
type_synonym uint32_t = "32 word"
type_synonym uindex_t = "32 word"
type_synonym index_t = "32 word"
type_synonym c_int = "32 word"

text \<open>
  What a call can end with other than a normal return: the exceptions of the class and of
  its container, the failed \<open>assert\<close> of the subset constructor, and the calls C++ leaves
  undefined (an unchecked read past the end, an iterator outside the container, a signed
  overflow), about which nothing is claimed.
\<close>

datatype error =
    OutOfRange
  | UnorganizedPointCloudException
  | CapacityViolation
  | LengthError
  | AssertionFailed
  | UndefinedBehaviour

section \<open>The container \<open>span_or_vector\<close>\<close>

datatype ownership = Owning | Borrowing

record 'a span_or_vector =
  mode :: ownership
  elems :: "'a list"

text \<open>
  Modelled from the spec: \<open>span_or_vector/span_or_vector.hpp\<close> is not among the sources.
  The operations below follow the spec's HybridBuffer: in owning mode the buffer is a
  \<open>std::vector\<close>; in borrowing mode it wraps storage of fixed length, a call that would
  change the length signals the capacity error and changes nothing, and a call that keeps
  the length works in place. An owning buffer refuses a length above \<open>max_size\<close> with
  \<open>std::length_error\<close>; the bound used is \<open>PTRDIFF_MAX\<close>, which no implementation exceeds.
  Running out of memory is not modelled.
\<close>

definition sov_max_size :: nat where
  "sov_max_size = 2 ^ 63 - 1"

text \<open>Modelled from the spec: \<open>borrow(ptr, len)\<close>, a view of the first \<open>len\<close> elements of the
  caller's storage \<open>mem\<close>; a view longer than the storage is undefined.\<close>

definition sov_borrow :: "'a list \<Rightarrow> nat \<Rightarrow> error + 'a span_or_vector" where
  "sov_borrow mem len =
     (if length mem < len then Inl UndefinedBehaviour
      else Inr \<lparr>mode = Borrowing, elems = take len mem\<rparr>)"

text \<open>Modelled from the spec: \<open>own(len, value)\<close>.\<close>

definition sov_own :: "nat \<Rightarrow> 'a \<Rightarrow> error + 'a span_or_vector" where
  "sov_own len v =
     (if sov_max_size < len then Inl LengthError
      else Inr \<lparr>mode = Owning, elems = replicate len v\<rparr>)"

text \<open>Modelled from the spec: copying always produces an owning copy.\<close>

definition sov_copy :: "'a span_or_vector \<Rightarrow> 'a span_or_vector" where
  "sov_copy b = \<lparr>mode = Owning, elems = elems b\<rparr>"

definition sov_size :: "'a span_or_vector \<Rightarrow> size_t" where
  "sov_size b = of_nat (length (elems b))"

text \<open>Modelled from the spec: \<open>at(i)\<close> signals an out-of-range error when \<open>i \<ge> length\<close>;
  \<open>operator[]\<close> is undefined there.\<close>

definition sov_at :: "size_t \<Rightarrow> 'a span_or_vector \<Rightarrow> error + 'a" where
  "sov_at n b =
     (if unat n < length (elems b) then Inr (elems b ! unat n) else Inl OutOfRange)"

definition sov_index :: "size_t \<Rightarrow> 'a span_or_vector \<Rightarrow> error + 'a" where
  "sov_index n b =
     (if unat n < length (elems b) then Inr (elems b ! unat n) else Inl UndefinedBehaviour)"

text \<open>Modelled from the spec: \<open>resize(newLen, value)\<close>. Borrowing with
  \<open>newLen \<noteq> length\<close> is the capacity error.\<close>

definition sov_resize :: "size_t \<Rightarrow> 'a \<Rightarrow> 'a span_or_vector \<Rightarrow> error + 'a span_or_vector" where
  "sov_resize n v b =
     (if mode b = Borrowing then
        (if unat n = length (elems b) then Inr b else Inl CapacityViolation)
      else if sov_max_size < unat n then Inl LengthError
      else Inr (b\<lparr>elems := take (unat n) (elems b) @ replicate (unat n - length (elems b)) v\<rparr>))"

text \<open>Modelled from the spec: \<open>assign\<close> replaces the contents by the given sequence.\<close>

definition sov_assign :: "'a list \<Rightarrow> 'a span_or_vector \<Rightarrow> error + 'a span_or_vector" where
  "sov_assign xs b =
     (if mode b = Borrowing then
        (if length xs = length (elems b) then Inr (b\<lparr>elems := xs\<rparr>) else Inl CapacityViolation)
      else if sov_max_size < length xs then Inl LengthError
      else Inr (b\<lparr>elems := xs\<rparr>))"

text \<open>Modelled from the spec: \<open>push_back\<close> and \<open>emplace_back\<close>.\<close>

definition sov_push_back :: "'a \<Rightarrow> 'a span_or_vector \<Rightarrow> error + 'a span_or_vector" where
  "sov_push_back x b =
     (if mode b = Borrowing then Inl CapacityViolation
      else if sov_max_size < length (elems b) + 1 then Inl LengthError
      else Inr (b\<lparr>elems := elems b @ [x]\<rparr>))"

text \<open>Modelled from the spec: \<open>insert\<close> and \<open>emplace\<close> of the sequence \<open>xs\<close> before the
  iterator \<open>begin() + pos\<close>.\<close>

definition sov_insert :: "nat \<Rightarrow> 'a list \<Rightarrow> 'a span_or_vector \<Rightarrow> error + 'a span_or_vector" where
  "sov_insert pos xs b =
     (if mode b = Borrowing \<and> xs \<noteq> [] then Inl CapacityViolation
      else if length (elems b) < pos then Inl UndefinedBehaviour
      else if sov_max_size < length (elems b) + length xs then Inl LengthError
      else Inr (b\<lparr>elems := take pos (elems b) @ xs @ drop pos (elems b)\<rparr>))"

text \<open>Modelled from the spec: \<open>erase\<close> of the range of iterators
  \<open>[begin() + first, begin() + lst)\<close>.\<close>

definition sov_erase :: "nat \<Rightarrow> nat \<Rightarrow> 'a span_or_vector \<Rightarrow> error + 'a span_or_vector" where
  "sov_erase first lst b =
     (if lst < first \<or> length (elems b) < lst then Inl UndefinedBehaviour
      else if mode b = Borrowing \<and> first < lst then Inl CapacityViolation
      else Inr (b\<lparr>elems := take first (elems b) @ drop lst (elems b)\<rparr>))"

text \<open>Modelled from the spec: clearing resets the buffer to empty.\<close>

definition sov_clear :: "'a span_or_vector \<Rightarrow> 'a span_or_vector" where
  "sov_clear b = b\<lparr>elems := []\<rparr>"

section \<open>The point cloud\<close>

text \<open>\<open>pcl::PCLHeader\<close> is PCL's: a sequence number, a 64-bit time stamp and a frame name.\<close>

record PCLHeader =
  seq :: "32 word"
  stamp :: "64 word"
  frame_id :: string

text \<open>The fields of the class, in the order of their declaration. The Eigen vector and
  quaternion of the sensor pose are opaque here; \<open>sensor_origin\<close> and \<open>sensor_orientation\<close>
  are the members \<^verbatim>\<open>sensor_origin_\<close> and \<^verbatim>\<open>sensor_orientation_\<close>.\<close>

record ('a, 'v, 'q) PointCloud =
  header :: PCLHeader
  points :: "'a span_or_vector"
  width :: uint32_t
  height :: uint32_t
  is_dense :: bool
  sensor_origin :: 'v
  sensor_orientation :: 'q

text \<open>
  A member function that can throw returns \<open>Inr\<close> of the cloud it leaves on a normal
  return and \<open>Inl\<close> of the exception with the cloud as it stands when the exception leaves
  the function: the statements after the throwing one have not run.
\<close>

type_synonym ('a, 'v, 'q) outcome =
  "(error \<times> ('a, 'v, 'q) PointCloud) + ('a, 'v, 'q) PointCloud"

definition size_cloud :: "('a, 'v, 'q) PointCloud \<Rightarrow> size_t" where
  "size_cloud c = sov_size (points c)"

definition isOrganized :: "('a, 'v, 'q) PointCloud \<Rightarrow> bool" where
  "isOrganized c = (1 < height c)"

subsection \<open>Constructors\<close>

text \<open>\<open>PointCloud(PointT* data, uint32_t width_, uint32_t height_)\<close>: the product is taken
  in 32 bits and converted to \<open>size_t\<close> afterwards. The other members keep their default
  initialisers, given here as \<open>hdr0\<close>, \<open>origin0\<close> and \<open>orientation0\<close>.\<close>

definition PointCloud_span ::
  "PCLHeader \<Rightarrow> 'v \<Rightarrow> 'q \<Rightarrow> 'a list \<Rightarrow> uint32_t \<Rightarrow> uint32_t \<Rightarrow> error + ('a, 'v, 'q) PointCloud" where
  "PointCloud_span hdr0 origin0 orientation0 data width_in height_in =
     (case sov_borrow data (unat (ucast (width_in * height_in) :: size_t)) of
        Inl e \<Rightarrow> Inl e
      | Inr b \<Rightarrow> Inr \<lparr>header = hdr0, points = b, width = width_in, height = height_in,
                     is_dense = True, sensor_origin = origin0,
                     sensor_orientation = orientation0\<rparr>)"

text \<open>The loop \<open>for (i = 0; i < indices.size(); i++) points[i] = pc[indices[i]]\<close> of the
  subset constructor, from position \<open>i\<close> on, \<open>ks\<close> being the indices not yet read. Both
  accesses are unchecked.\<close>

fun copy_indices :: "'a list \<Rightarrow> index_t list \<Rightarrow> nat \<Rightarrow> 'a list \<Rightarrow> error + 'a list" where
  "copy_indices src [] i pts = Inr pts"
| "copy_indices src (k # ks) i pts =
     (if unat (scast k :: size_t) < length src \<and> i < length pts
      then copy_indices src ks (Suc i) (pts[i := src ! unat (scast k :: size_t)])
      else Inl UndefinedBehaviour)"

text \<open>\<open>PointCloud(const PointCloud& pc, const Indices& indices)\<close>; \<open>dflt\<close> is the
  value-initialised point the buffer is first filled with.\<close>

definition PointCloud_subset ::
  "'a \<Rightarrow> ('a, 'v, 'q) PointCloud \<Rightarrow> index_t list \<Rightarrow> error + ('a, 'v, 'q) PointCloud" where
  "PointCloud_subset dflt pc indices =
     (case sov_own (length indices) dflt of
        Inl e \<Rightarrow> Inl e
      | Inr b \<Rightarrow>
          if \<not> length indices \<le> length (elems (points pc)) then Inl AssertionFailed
          else (case copy_indices (elems (points pc)) indices 0 (elems b) of
                  Inl e \<Rightarrow> Inl e
                | Inr pts \<Rightarrow>
                    Inr \<lparr>header = header pc, points = b\<lparr>elems := pts\<rparr>,
                         width = of_nat (length indices), height = 1,
                         is_dense = is_dense pc, sensor_origin = sensor_origin pc,
                         sensor_orientation = sensor_orientation pc\<rparr>))"

subsection \<open>Element access\<close>

text \<open>\<open>at(int column, int row)\<close>: \<open>row * this->width + column\<close> is computed in
  \<open>unsigned int\<close> and widened to \<open>size_t\<close> for \<open>points.at\<close>.\<close>

definition at_offset :: "uint32_t \<Rightarrow> c_int \<Rightarrow> c_int \<Rightarrow> size_t" where
  "at_offset w column row = ucast (row * w + column)"

definition at_2d :: "c_int \<Rightarrow> c_int \<Rightarrow> ('a, 'v, 'q) PointCloud \<Rightarrow> error + 'a" where
  "at_2d column row c =
     (if 1 < height c then sov_at (at_offset (width c) column row) (points c)
      else Inl UnorganizedPointCloudException)"

text \<open>\<open>operator()(std::size_t column, std::size_t row)\<close>: the same expression, in
  \<open>size_t\<close>, read with the unchecked \<open>points[]\<close>.\<close>

definition call_offset :: "uint32_t \<Rightarrow> size_t \<Rightarrow> size_t \<Rightarrow> size_t" where
  "call_offset w column row = row * ucast w + column"

definition call_2d :: "size_t \<Rightarrow> size_t \<Rightarrow> ('a, 'v, 'q) PointCloud \<Rightarrow> error + 'a" where
  "call_2d column row c = sov_index (call_offset (width c) column row) (points c)"

subsection \<open>Resizing\<close>

text \<open>\<open>resize(std::size_t count)\<close>; \<open>dflt\<close> is the default-inserted point. The product
  \<open>width * height\<close> is a 32-bit one, widened for the comparison with \<open>count\<close>.\<close>

definition resize :: "'a \<Rightarrow> size_t \<Rightarrow> ('a, 'v, 'q) PointCloud \<Rightarrow> ('a, 'v, 'q) outcome" where
  "resize dflt count c =
     (case sov_resize count dflt (points c) of
        Inl e \<Rightarrow> Inl (e, c)
      | Inr b \<Rightarrow>
          (let c1 = c\<lparr>points := b\<rparr> in
           if (ucast (width c1 * height c1) :: size_t) \<noteq> count
           then Inr (c1\<lparr>width := ucast count, height := 1\<rparr>)
           else Inr c1))"

text \<open>\<open>resize(uindex_t new_width, uindex_t new_height)\<close>.\<close>

definition resize_wh ::
  "'a \<Rightarrow> uindex_t \<Rightarrow> uindex_t \<Rightarrow> ('a, 'v, 'q) PointCloud \<Rightarrow> ('a, 'v, 'q) outcome" where
  "resize_wh dflt new_width new_height c =
     (case sov_resize (ucast (new_width * new_height)) dflt (points c) of
        Inl e \<Rightarrow> Inl (e, c)
      | Inr b \<Rightarrow> Inr (c\<lparr>points := b, width := new_width, height := new_height\<rparr>))"

text \<open>\<open>resize(index_t count, const PointT& value)\<close>: \<open>count\<close> is sign-extended for
  \<open>points.resize\<close> and compared with the 32-bit product as an unsigned number.\<close>

definition resize_value ::
  "index_t \<Rightarrow> 'a \<Rightarrow> ('a, 'v, 'q) PointCloud \<Rightarrow> ('a, 'v, 'q) outcome" where
  "resize_value count v c =
     (case sov_resize (scast count) v (points c) of
        Inl e \<Rightarrow> Inl (e, c)
      | Inr b \<Rightarrow>
          (let c1 = c\<lparr>points := b\<rparr> in
           if width c1 * height c1 \<noteq> count
           then Inr (c1\<lparr>width := count, height := 1\<rparr>)
           else Inr c1))"

text \<open>The product of two \<open>index_t\<close>: a signed 32-bit multiplication, undefined when it
  overflows.\<close>

definition index_mul :: "index_t \<Rightarrow> index_t \<Rightarrow> error + index_t" where
  "index_mul a b =
     (if - (2 ^ 31) \<le> sint a * sint b \<and> sint a * sint b < 2 ^ 31 then Inr (a * b)
      else Inl UndefinedBehaviour)"

text \<open>\<open>resize(index_t new_width, index_t new_height, const PointT& value)\<close>.\<close>

definition resize_wh_value ::
  "index_t \<Rightarrow> index_t \<Rightarrow> 'a \<Rightarrow> ('a, 'v, 'q) PointCloud \<Rightarrow> ('a, 'v, 'q) outcome" where
  "resize_wh_value new_width new_height v c =
     (case index_mul new_width new_height of
        Inl e \<Rightarrow> Inl (e, c)
      | Inr n \<Rightarrow>
          (case sov_resize (scast n) v (points c) of
             Inl e \<Rightarrow> Inl (e, c)
           | Inr b \<Rightarrow> Inr (c\<lparr>points := b, width := new_width, height := new_height\<rparr>)))"

subsection \<open>Assignment\<close>

text \<open>\<open>assign(index_t count, const PointT& value)\<close>.\<close>

definition assign ::
  "index_t \<Rightarrow> 'a \<Rightarrow> ('a, 'v, 'q) PointCloud \<Rightarrow> ('a, 'v, 'q) outcome" where
  "assign count v c =
     (case sov_assign (replicate (unat (scast count :: size_t)) v) (points c) of
        Inl e \<Rightarrow> Inl (e, c)
      | Inr b \<Rightarrow>
          (let c1 = c\<lparr>points := b\<rparr> in
           Inr (c1\<lparr>width := ucast (size_cloud c1), height := 1\<rparr>)))"

text \<open>\<open>assign(index_t new_width, index_t new_height, const PointT& value)\<close>.\<close>

definition assign_wh ::
  "index_t \<Rightarrow> index_t \<Rightarrow> 'a \<Rightarrow> ('a, 'v, 'q) PointCloud \<Rightarrow> ('a, 'v, 'q) outcome" where
  "assign_wh new_width new_height v c =
     (case index_mul new_width new_height of
        Inl e \<Rightarrow> Inl (e, c)
      | Inr n \<Rightarrow>
          (case sov_assign (replicate (unat (scast n :: size_t)) v) (points c) of
             Inl e \<Rightarrow> Inl (e, c)
           | Inr b \<Rightarrow> Inr (c\<lparr>points := b, width := new_width, height := new_height\<rparr>)))"

text \<open>\<open>assign(InputIterator first, InputIterator last)\<close>: the range is the list \<open>xs\<close> of
  the points it yields.\<close>

definition assign_range ::
  "'a list \<Rightarrow> ('a, 'v, 'q) PointCloud \<Rightarrow> ('a, 'v, 'q) outcome" where
  "assign_range xs c =
     (case sov_assign xs (points c) of
        Inl e \<Rightarrow> Inl (e, c)
      | Inr b \<Rightarrow>
          (let c1 = c\<lparr>points := b\<rparr> in
           Inr (c1\<lparr>width := ucast (size_cloud c1), height := 1\<rparr>)))"

text \<open>The two messages of \<open>PCL_WARN\<close>: the second carries the requested width and the
  size.\<close>

datatype diagnostic = ZeroWidthWarning | MismatchWarning size_t size_t

text \<open>\<open>assign(InputIterator first, InputIterator last, index_t new_width)\<close>: the result is
  the list of the diagnostics emitted and the outcome. \<open>size() / width\<close> is a division in
  \<open>size_t\<close>, cut to 32 bits when stored in \<open>height\<close>.\<close>

definition assign_range_width ::
  "'a list \<Rightarrow> index_t \<Rightarrow> ('a, 'v, 'q) PointCloud \<Rightarrow> diagnostic list \<times> ('a, 'v, 'q) outcome" where
  "assign_range_width xs new_width c =
     (if new_width = 0 then ([ZeroWidthWarning], assign_range xs c)
      else
        (case sov_assign xs (points c) of
           Inl e \<Rightarrow> ([], Inl (e, c))
         | Inr b \<Rightarrow>
             (let c1 = c\<lparr>points := b\<rparr>;
                  c2 = c1\<lparr>width := new_width\<rparr>;
                  c3 = c2\<lparr>height := ucast (size_cloud c2 div ucast (width c2))\<rparr>
              in if (ucast (width c3 * height c3) :: size_t) \<noteq> size_cloud c3
                 then ([MismatchWarning (ucast (width c3)) (size_cloud c3)],
                       Inr (c3\<lparr>width := ucast (size_cloud c3), height := 1\<rparr>))
                 else ([], Inr c3))))"

text \<open>\<open>assign(std::initializer_list<PointT> ilist)\<close>.\<close>

definition assign_ilist ::
  "'a list \<Rightarrow> ('a, 'v, 'q) PointCloud \<Rightarrow> ('a, 'v, 'q) outcome" where
  "assign_ilist ilist c =
     (case sov_assign ilist (points c) of
        Inl e \<Rightarrow> Inl (e, c)
      | Inr b \<Rightarrow>
          (let c1 = c\<lparr>points := b\<rparr> in
           Inr (c1\<lparr>width := ucast (size_cloud c1), height := 1\<rparr>)))"

text \<open>\<open>assign(std::initializer_list<PointT> ilist, index_t new_width)\<close>.\<close>

definition assign_ilist_width ::
  "'a list \<Rightarrow> index_t \<Rightarrow> ('a, 'v, 'q) PointCloud \<Rightarrow> diagnostic list \<times> ('a, 'v, 'q) outcome" where
  "assign_ilist_width ilist new_width c =
     (if new_width = 0 then ([ZeroWidthWarning], assign_ilist ilist c)
      else
        (case sov_assign ilist (points c) of
           Inl e \<Rightarrow> ([], Inl (e, c))
         | Inr b \<Rightarrow>
             (let c1 = c\<lparr>points := b\<rparr>;
                  c2 = c1\<lparr>width := new_width\<rparr>;
                  c3 = c2\<lparr>height := ucast (size_cloud c2 div ucast (width c2))\<rparr>
              in if (ucast (width c3 * height c3) :: size_t) \<noteq> size_cloud c3
                 then ([MismatchWarning (ucast (width c3)) (size_cloud c3)],
                       Inr (c3\<lparr>width := ucast (size_cloud c3), height := 1\<rparr>))
                 else ([], Inr c3))))"

subsection \<open>Growing and shrinking, plain and transient\<close>

text \<open>An \<open>iterator\<close> argument is its distance from \<open>begin()\<close>. \<open>emplace_back\<close> and
  \<open>emplace\<close> take the point their arguments construct. The references and iterators the
  calls return are not modelled.\<close>

definition push_back :: "'a \<Rightarrow> ('a, 'v, 'q) PointCloud \<Rightarrow> ('a, 'v, 'q) outcome" where
  "push_back pt c =
     (case sov_push_back pt (points c) of
        Inl e \<Rightarrow> Inl (e, c)
      | Inr b \<Rightarrow>
          (let c1 = c\<lparr>points := b\<rparr> in
           Inr (c1\<lparr>width := ucast (size_cloud c1), height := 1\<rparr>)))"

definition transient_push_back :: "'a \<Rightarrow> ('a, 'v, 'q) PointCloud \<Rightarrow> ('a, 'v, 'q) outcome" where
  "transient_push_back pt c =
     (case sov_push_back pt (points c) of
        Inl e \<Rightarrow> Inl (e, c)
      | Inr b \<Rightarrow> Inr (c\<lparr>points := b\<rparr>))"

definition emplace_back :: "'a \<Rightarrow> ('a, 'v, 'q) PointCloud \<Rightarrow> ('a, 'v, 'q) outcome" where
  "emplace_back pt c =
     (case sov_push_back pt (points c) of
        Inl e \<Rightarrow> Inl (e, c)
      | Inr b \<Rightarrow>
          (let c1 = c\<lparr>points := b\<rparr> in
           Inr (c1\<lparr>width := ucast (size_cloud c1), height := 1\<rparr>)))"

definition transient_emplace_back :: "'a \<Rightarrow> ('a, 'v, 'q) PointCloud \<Rightarrow> ('a, 'v, 'q) outcome" where
  "transient_emplace_back pt c =
     (case sov_push_back pt (points c) of
        Inl e \<Rightarrow> Inl (e, c)
      | Inr b \<Rightarrow> Inr (c\<lparr>points := b\<rparr>))"

text \<open>\<open>insert(iterator position, const PointT& pt)\<close>.\<close>

definition insert_point :: "nat \<Rightarrow> 'a \<Rightarrow> ('a, 'v, 'q) PointCloud \<Rightarrow> ('a, 'v, 'q) outcome" where
  "insert_point position pt c =
     (case sov_insert position [pt] (points c) of
        Inl e \<Rightarrow> Inl (e, c)
      | Inr b \<Rightarrow>
          (let c1 = c\<lparr>points := b\<rparr> in
           Inr (c1\<lparr>width := ucast (size_cloud c1), height := 1\<rparr>)))"

definition transient_insert_point ::
  "nat \<Rightarrow> 'a \<Rightarrow> ('a, 'v, 'q) PointCloud \<Rightarrow> ('a, 'v, 'q) outcome" where
  "transient_insert_point position pt c =
     (case sov_insert position [pt] (points c) of
        Inl e \<Rightarrow> Inl (e, c)
      | Inr b \<Rightarrow> Inr (c\<lparr>points := b\<rparr>))"

text \<open>\<open>insert(iterator position, std::size_t n, const PointT& pt)\<close>.\<close>

definition insert_n ::
  "nat \<Rightarrow> size_t \<Rightarrow> 'a \<Rightarrow> ('a, 'v, 'q) PointCloud \<Rightarrow> ('a, 'v, 'q) outcome" where
  "insert_n position n pt c =
     (case sov_insert position (replicate (unat n) pt) (points c) of
        Inl e \<Rightarrow> Inl (e, c)
      | Inr b \<Rightarrow>
          (let c1 = c\<lparr>points := b\<rparr> in
           Inr (c1\<lparr>width := ucast (size_cloud c1), height := 1\<rparr>)))"

definition transient_insert_n ::
  "nat \<Rightarrow> size_t \<Rightarrow> 'a \<Rightarrow> ('a, 'v, 'q) PointCloud \<Rightarrow> ('a, 'v, 'q) outcome" where
  "transient_insert_n position n pt c =
     (case sov_insert position (replicate (unat n) pt) (points c) of
        Inl e \<Rightarrow> Inl (e, c)
      | Inr b \<Rightarrow> Inr (c\<lparr>points := b\<rparr>))"

text \<open>\<open>insert(iterator position, InputIterator first, InputIterator last)\<close>.\<close>

definition insert_range ::
  "nat \<Rightarrow> 'a list \<Rightarrow> ('a, 'v, 'q) PointCloud \<Rightarrow> ('a, 'v, 'q) outcome" where
  "insert_range position xs c =
     (case sov_insert position xs (points c) of
        Inl e \<Rightarrow> Inl (e, c)
      | Inr b \<Rightarrow>
          (let c1 = c\<lparr>points := b\<rparr> in
           Inr (c1\<lparr>width := ucast (size_cloud c1), height := 1\<rparr>)))"

definition transient_insert_range ::
  "nat \<Rightarrow> 'a list \<Rightarrow> ('a, 'v, 'q) PointCloud \<Rightarrow> ('a, 'v, 'q) outcome" where
  "transient_insert_range position xs c =
     (case sov_insert position xs (points c) of
        Inl e \<Rightarrow> Inl (e, c)
      | Inr b \<Rightarrow> Inr (c\<lparr>points := b\<rparr>))"

text \<open>\<open>emplace(iterator position, Args&&... args)\<close>.\<close>

definition emplace :: "nat \<Rightarrow> 'a \<Rightarrow> ('a, 'v, 'q) PointCloud \<Rightarrow> ('a, 'v, 'q) outcome" where
  "emplace position pt c =
     (case sov_insert position [pt] (points c) of
        Inl e \<Rightarrow> Inl (e, c)
      | Inr b \<Rightarrow>
          (let c1 = c\<lparr>points := b\<rparr> in
           Inr (c1\<lparr>width := ucast (size_cloud c1), height := 1\<rparr>)))"

definition transient_emplace ::
  "nat \<Rightarrow> 'a \<Rightarrow> ('a, 'v, 'q) PointCloud \<Rightarrow> ('a, 'v, 'q) outcome" where
  "transient_emplace position pt c =
     (case sov_insert position [pt] (points c) of
        Inl e \<Rightarrow> Inl (e, c)
      | Inr b \<Rightarrow> Inr (c\<lparr>points := b\<rparr>))"

text \<open>\<open>erase(iterator position)\<close>: the iterator must point at an element, so the range
  erased is \<open>[position, position + 1)\<close>.\<close>

definition erase :: "nat \<Rightarrow> ('a, 'v, 'q) PointCloud \<Rightarrow> ('a, 'v, 'q) outcome" where
  "erase position c =
     (case sov_erase position (Suc position) (points c) of
        Inl e \<Rightarrow> Inl (e, c)
      | Inr b \<Rightarrow>
          (let c1 = c\<lparr>points := b\<rparr> in
           Inr (c1\<lparr>width := ucast (size_cloud c1), height := 1\<rparr>)))"

definition transient_erase :: "nat \<Rightarrow> ('a, 'v, 'q) PointCloud \<Rightarrow> ('a, 'v, 'q) outcome" where
  "transient_erase position c =
     (case sov_erase position (Suc position) (points c) of
        Inl e \<Rightarrow> Inl (e, c)
      | Inr b \<Rightarrow> Inr (c\<lparr>points := b\<rparr>))"

text \<open>\<open>erase(iterator first, iterator last)\<close>.\<close>

definition erase_range ::
  "nat \<Rightarrow> nat \<Rightarrow> ('a, 'v, 'q) PointCloud \<Rightarrow> ('a, 'v, 'q) outcome" where
  "erase_range first lst c =
     (case sov_erase first lst (points c) of
        Inl e \<Rightarrow> Inl (e, c)
      | Inr b \<Rightarrow>
          (let c1 = c\<lparr>points := b\<rparr> in
           Inr (c1\<lparr>width := ucast (size_cloud c1), height := 1\<rparr>)))"

definition transient_erase_range ::
  "nat \<Rightarrow> nat \<Rightarrow> ('a, 'v, 'q) PointCloud \<Rightarrow> ('a, 'v, 'q) outcome" where
  "transient_erase_range first lst c =
     (case sov_erase first lst (points c) of
        Inl e \<Rightarrow> Inl (e, c)
      | Inr b \<Rightarrow> Inr (c\<lparr>points := b\<rparr>))"

definition clear :: "('a, 'v, 'q) PointCloud \<Rightarrow> ('a, 'v, 'q) PointCloud" where
  "clear c = c\<lparr>points := sov_clear (points c), width := 0, height := 0\<rparr>"

subsection \<open>Concatenation\<close>

text \<open>\<open>concatenate(cloud1, cloud2)\<close> works on \<open>cloud1\<close> in place: the stamp is written
  before the insertion, which goes through the member \<open>insert\<close> above and may throw. The
  \<open>bool\<close> it returns is always \<open>true\<close> and is left out.\<close>

definition concatenate ::
  "('a, 'v, 'q) PointCloud \<Rightarrow> ('a, 'v, 'q) PointCloud \<Rightarrow> ('a, 'v, 'q) outcome" where
  "concatenate cloud1 cloud2 =
     (let c1 = cloud1\<lparr>header := (header cloud1)
                 \<lparr>stamp := max (stamp (header cloud1)) (stamp (header cloud2))\<rparr>\<rparr>
      in case insert_range (length (elems (points c1))) (elems (points cloud2)) c1 of
           Inl e \<Rightarrow> Inl e
         | Inr c2 \<Rightarrow>
             (let c3 = c2\<lparr>width := ucast (size_cloud c2)\<rparr>;
                  c4 = c3\<lparr>height := 1\<rparr>
              in Inr (c4\<lparr>is_dense := (is_dense c4 \<and> is_dense cloud2)\<rparr>)))"

text \<open>\<open>concatenate(cloud1, cloud2, cloud_out)\<close>: \<open>cloud_out = cloud1\<close> overwrites every
  member of \<open>cloud_out\<close>. Modelled from the spec: the copied buffer is an owning one.\<close>

definition concatenate_out ::
  "('a, 'v, 'q) PointCloud \<Rightarrow> ('a, 'v, 'q) PointCloud \<Rightarrow> ('a, 'v, 'q) PointCloud
     \<Rightarrow> ('a, 'v, 'q) outcome" where
  "concatenate_out cloud1 cloud2 cloud_out =
     concatenate (cloud1\<lparr>points := sov_copy (points cloud1)\<rparr>) cloud2"

subsection \<open>The plain mutating calls\<close>

text \<open>The non-transient mutating member functions, as one type of calls, and the member
  each one runs.\<close>

datatype ('a, 'v, 'q) mutating_call =
    Resize size_t
  | ResizeWH uindex_t uindex_t
  | ResizeValue index_t 'a
  | ResizeWHValue index_t index_t 'a
  | Assign index_t 'a
  | AssignWH index_t index_t 'a
  | AssignRange "'a list"
  | AssignRangeWidth "'a list" index_t
  | AssignIlist "'a list"
  | AssignIlistWidth "'a list" index_t
  | PushBack 'a
  | EmplaceBack 'a
  | InsertPoint nat 'a
  | InsertN nat size_t 'a
  | InsertRange nat "'a list"
  | Emplace nat 'a
  | Erase nat
  | EraseRange nat nat
  | Clear
  | Concatenate "('a, 'v, 'q) PointCloud"
  | ConcatenateOut "('a, 'v, 'q) PointCloud" "('a, 'v, 'q) PointCloud"

fun run_call ::
  "'a \<Rightarrow> ('a, 'v, 'q) mutating_call \<Rightarrow> ('a, 'v, 'q) PointCloud \<Rightarrow> ('a, 'v, 'q) outcome" where
  "run_call dflt (Resize count) c = resize dflt count c"
| "run_call dflt (ResizeWH w h) c = resize_wh dflt w h c"
| "run_call dflt (ResizeValue count v) c = resize_value count v c"
| "run_call dflt (ResizeWHValue w h v) c = resize_wh_value w h v c"
| "run_call dflt (Assign count v) c = assign count v c"
| "run_call dflt (AssignWH w h v) c = assign_wh w h v c"
| "run_call dflt (AssignRange xs) c = assign_range xs c"
| "run_call dflt (AssignRangeWidth xs w) c = snd (assign_range_width xs w c)"
| "run_call dflt (AssignIlist xs) c = assign_ilist xs c"
| "run_call dflt (AssignIlistWidth xs w) c = snd (assign_ilist_width xs w c)"
| "run_call dflt (PushBack pt) c = push_back pt c"
| "run_call dflt (EmplaceBack pt) c = emplace_back pt c"
| "run_call dflt (InsertPoint position pt) c = insert_point position pt c"
| "run_call dflt (InsertN position n pt) c = insert_n position n pt c"
| "run_call dflt (InsertRange position xs) c = insert_range position xs c"
| "run_call dflt (Emplace position pt) c = emplace position pt c"
| "run_call dflt (Erase position) c = erase position c"
| "run_call dflt (EraseRange first lst) c = erase_range first lst c"
| "run_call dflt Clear c = Inr (clear c)"
| "run_call dflt (Concatenate cloud2) c = concatenate c cloud2"
| "run_call dflt (ConcatenateOut cloud1 cloud2) c = concatenate_out cloud1 cloud2 c"

subsection \<open>The default constructor\<close>

text \<open>\<open>PointCloud() = default\<close>: the default member initialisers, an empty buffer of its
  own, and the identity pose \<open>origin0\<close>, \<open>orientation0\<close>.\<close>

definition PointCloud_default :: "'v \<Rightarrow> 'q \<Rightarrow> ('a, 'v, 'q) PointCloud" where
  "PointCloud_default origin0 orientation0 =
     \<lparr>header = \<lparr>seq = 0, stamp = 0, frame_id = []\<rparr>,
      points = \<lparr>mode = Owning, elems = []\<rparr>, width = 0, height = 0, is_dense = True,
      sensor_origin = origin0, sensor_orientation = orientation0\<rparr>"

section \<open>Reading an outcome\<close>

text \<open>The cloud a call leaves behind, whether it returned or threw, and the exception it
  threw, if any.\<close>

definition cloud_after :: "('a, 'v, 'q) outcome \<Rightarrow> ('a, 'v, 'q) PointCloud" where
  "cloud_after r = (case r of Inl (e, c) \<Rightarrow> c | Inr c \<Rightarrow> c)"

definition raised :: "('a, 'v, 'q) outcome \<Rightarrow> error option" where
  "raised r = (case r of Inl (e, c) \<Rightarrow> Some e | Inr c \<Rightarrow> None)"

text \<open>What relates the outcome \<open>t\<close> of a transient call on the cloud \<open>c\<close> to the outcome
  \<open>p\<close> of the plain call with the same arguments: the same buffer, the same exception or
  none, and the width and height \<open>c\<close> had.\<close>

definition transient_of ::
  "('a, 'v, 'q) PointCloud \<Rightarrow> ('a, 'v, 'q) outcome \<Rightarrow> ('a, 'v, 'q) outcome \<Rightarrow> bool" where
  "transient_of c t p \<longleftrightarrow>
     points (cloud_after t) = points (cloud_after p) \<and> raised t = raised p \<and>
     width (cloud_after t) = width c \<and> height (cloud_after t) = height c"

section \<open>Shapes and concatenations\<close>

text \<open>The test the class applies to its own shape, \<open>width * height\<close> against \<open>size()\<close>,
  read modulo \<open>2 ^ 32\<close>.\<close>

definition shape_matches :: "('a, 'v, 'q) PointCloud \<Rightarrow> bool" where
  "shape_matches c \<longleftrightarrow> width c * height c = of_nat (length (elems (points c)))"

text \<open>What \<open>concatenate\<close> promises of the cloud \<open>c\<close> it makes of \<open>a\<close> and \<open>b\<close>: the points of
  \<open>a\<close> followed by those of \<open>b\<close>, the width the combined length cut to 32 bits (the
  combined length itself below \<open>2 ^ 32\<close>), height 1, the later stamp, and the conjunction of
  the two \<open>is_dense\<close>.\<close>

definition concatenation_of ::
  "('a, 'v, 'q) PointCloud \<Rightarrow> ('a, 'v, 'q) PointCloud \<Rightarrow> ('a, 'v, 'q) PointCloud \<Rightarrow> bool" where
  "concatenation_of a b c \<longleftrightarrow>
     elems (points c) = elems (points a) @ elems (points b) \<and>
     width c = of_nat (length (elems (points a)) + length (elems (points b))) \<and>
     (length (elems (points a)) + length (elems (points b)) < 2 ^ 32 \<longrightarrow>
        unat (width c) = length (elems (points a)) + length (elems (points b))) \<and>
     height c = 1 \<and>
     stamp (header c) = max (stamp (header a)) (stamp (header b)) \<and>
     is_dense c = (is_dense a \<and> is_dense b)"

section \<open>Example clouds\<close>

text \<open>Clouds whose points are natural numbers and whose sensor pose is trivial, on which
  the members are run below. \<open>overflown_cloud\<close>, \<open>long_row\<close> and \<open>long_row_and_one\<close> hold
  \<open>2 ^ 32\<close> points or one less; \<open>square_cloud\<close> has a width and a height whose product is
  \<open>2 ^ 32\<close> and no point.\<close>

definition empty_cloud :: "(nat, unit, unit) PointCloud" where
  "empty_cloud = PointCloud_default () ()"

definition borrowed_row :: "(nat, unit, unit) PointCloud" where
  "borrowed_row = empty_cloud\<lparr>points := \<lparr>mode = Borrowing, elems = [10, 20, 30]\<rparr>,
     width := 3, height := 1\<rparr>"

definition grid_3x2 :: "(nat, unit, unit) PointCloud" where
  "grid_3x2 = empty_cloud\<lparr>points := \<lparr>mode = Owning, elems = [10, 20, 30, 40, 50, 60]\<rparr>,
     width := 3, height := 2\<rparr>"

definition overflown_cloud :: "(nat, unit, unit) PointCloud" where
  "overflown_cloud = empty_cloud\<lparr>points := \<lparr>mode = Owning, elems = replicate 4294967296 0\<rparr>,
     width := 0, height := 1\<rparr>"

definition square_cloud :: "(nat, unit, unit) PointCloud" where
  "square_cloud = empty_cloud\<lparr>width := 65536, height := 65536\<rparr>"

definition row_of_6 :: "(nat, unit, unit) PointCloud" where
  "row_of_6 = empty_cloud\<lparr>points := \<lparr>mode = Owning, elems = replicate 6 0\<rparr>,
     width := 6, height := 1\<rparr>"

definition long_row :: "(nat, unit, unit) PointCloud" where
  "long_row = empty_cloud\<lparr>points := \<lparr>mode = Owning, elems = replicate 4294967295 0\<rparr>,
     width := 4294967295, height := 1\<rparr>"

definition one_point :: "(nat, unit, unit) PointCloud" where
  "one_point = empty_cloud\<lparr>header := \<lparr>seq = 0, stamp = 5, frame_id = []\<rparr>,
     points := \<lparr>mode = Owning, elems = [7]\<rparr>, width := 1, height := 1, is_dense := False\<rparr>"

definition long_row_and_one :: "(nat, unit, unit) PointCloud" where
  "long_row_and_one = empty_cloud\<lparr>header := \<lparr>seq = 0, stamp = 5, frame_id = []\<rparr>,
     points := \<lparr>mode = Owning, elems = replicate 4294967295 0 @ [7]\<rparr>,
     width := 0, height := 1, is_dense := False\<rparr>"

definition tall_grid :: "(nat, unit, unit) PointCloud" where
  "tall_grid = empty_cloud\<lparr>points := \<lparr>mode = Owning, elems = 42 # replicate 131071 0\<rparr>,
     width := 65536, height := 2\<rparr>"

definition three_points :: "(nat, unit, unit) PointCloud" where
  "three_points = empty_cloud\<lparr>points := \<lparr>mode = Owning, elems = [1, 2, 3]\<rparr>,
     width := 3, height := 1\<rparr>"

definition four_points_2x2 :: "(nat, unit, unit) PointCloud" where
  "four_points_2x2 = empty_cloud\<lparr>points := \<lparr>mode = Owning, elems = [1, 2, 3, 4]\<rparr>,
     width := 2, height := 2\<rparr>"

definition picked_202 :: "(nat, unit, unit) PointCloud" where
  "picked_202 = empty_cloud\<lparr>points := \<lparr>mode = Owning, elems = [30, 10, 30]\<rparr>,
     width := 3, height := 1\<rparr>"

section \<open>Words\<close>

lemma unat_ucast_32_64: "unat (ucast (x :: 32 word) :: 64 word) = unat x"
proof -
  have "unat x < 2 ^ 32" using unsigned_less [of x] by simp
  then have "unat x < 2 ^ 64" by simp
  then show ?thesis by (simp add: unsigned_ucast_eq take_bit_nat_eq_self)
qed

lemma ucast_of_nat_64_32: "(ucast (of_nat n :: 64 word) :: 32 word) = of_nat n"
  by (simp add: unsigned_of_nat word_of_nat_eq_iff)

lemma ucast_scast_32: "(ucast (scast (x :: 32 word) :: 64 word) :: 32 word) = x"
  by (rule bit_word_eqI) (auto simp: bit_simps)

lemma ucast_ucast_32: "(ucast (ucast (x :: 32 word) :: 64 word) :: 32 word) = x"
  by (rule bit_word_eqI) (auto simp: bit_simps)

lemma unat_of_nat_32: "n < 2 ^ 32 \<Longrightarrow> unat (of_nat n :: 32 word) = n"
  by (simp add: unsigned_of_nat take_bit_nat_eq_self)

section \<open>The buffer after a call\<close>

lemma sov_resize_length:
  "sov_resize n v b = Inr b' \<Longrightarrow> length (elems b') = unat n"
  by (auto simp: sov_resize_def split: if_splits)

section \<open>Clearing\<close>

text \<open>
  C9. For every cloud, \<open>clear()\<close> empties the point buffer and sets width and height to 0;
  the header, \<open>is_dense\<close>, the sensor origin and the sensor orientation are what they were.
\<close>

theorem clear_frame:
  "elems (points (clear c)) = [] \<and> width (clear c) = 0 \<and> height (clear c) = 0
   \<and> header (clear c) = header c \<and> is_dense (clear c) = is_dense c
   \<and> sensor_origin (clear c) = sensor_origin c
   \<and> sensor_orientation (clear c) = sensor_orientation c"
  by (simp add: clear_def sov_clear_def)

section \<open>Transient calls\<close>

lemma transient_push_back_of:
  "transient_of c (transient_push_back pt c) (push_back pt c)"
  by (simp add: transient_of_def transient_push_back_def push_back_def cloud_after_def Let_def
      raised_def split: sum.splits)

lemma transient_emplace_back_of:
  "transient_of c (transient_emplace_back pt c) (emplace_back pt c)"
  by (simp add: transient_of_def transient_emplace_back_def emplace_back_def cloud_after_def
      Let_def raised_def split: sum.splits)

lemma transient_insert_point_of:
  "transient_of c (transient_insert_point position pt c) (insert_point position pt c)"
  by (simp add: transient_of_def transient_insert_point_def insert_point_def cloud_after_def
      Let_def raised_def split: sum.splits)

lemma transient_insert_n_of:
  "transient_of c (transient_insert_n position n pt c) (insert_n position n pt c)"
  by (simp add: transient_of_def transient_insert_n_def insert_n_def cloud_after_def Let_def
      raised_def split: sum.splits)

lemma transient_insert_range_of:
  "transient_of c (transient_insert_range position xs c) (insert_range position xs c)"
  by (simp add: transient_of_def transient_insert_range_def insert_range_def cloud_after_def
      Let_def raised_def split: sum.splits)

lemma transient_emplace_of:
  "transient_of c (transient_emplace position pt c) (emplace position pt c)"
  by (simp add: transient_of_def transient_emplace_def emplace_def cloud_after_def Let_def
      raised_def split: sum.splits)

lemma transient_erase_of:
  "transient_of c (transient_erase position c) (erase position c)"
  by (simp add: transient_of_def transient_erase_def erase_def cloud_after_def Let_def
      raised_def split: sum.splits)

lemma transient_erase_range_of:
  "transient_of c (transient_erase_range first lst c) (erase_range first lst c)"
  by (simp add: transient_of_def transient_erase_range_def erase_range_def cloud_after_def
      Let_def raised_def split: sum.splits)

text \<open>
  C8. For every cloud and every transient call (\<open>transient_push_back\<close>,
  \<open>transient_emplace_back\<close>, the three \<open>transient_insert\<close>, \<open>transient_emplace\<close>, the two
  \<open>transient_erase\<close>), the buffer left behind is the buffer the plain call with the same
  arguments leaves, the call throws exactly when the plain one does, and the width and
  height are the ones the cloud had before the call.
\<close>

theorem transient_same_buffer_dims_kept:
  "transient_of c (transient_push_back pt c) (push_back pt c) \<and>
   transient_of c (transient_emplace_back pt c) (emplace_back pt c) \<and>
   transient_of c (transient_insert_point position pt c) (insert_point position pt c) \<and>
   transient_of c (transient_insert_n position n pt c) (insert_n position n pt c) \<and>
   transient_of c (transient_insert_range position xs c) (insert_range position xs c) \<and>
   transient_of c (transient_emplace position pt c) (emplace position pt c) \<and>
   transient_of c (transient_erase position c) (erase position c) \<and>
   transient_of c (transient_erase_range first lst c) (erase_range first lst c)"
  by (simp only: transient_push_back_of transient_emplace_back_of transient_insert_point_of
      transient_insert_n_of transient_insert_range_of transient_emplace_of transient_erase_of
      transient_erase_range_of simp_thms)

section \<open>The 32-bit product\<close>

text \<open>
  C10. The zero-copy constructor from (pointer, width, height) and the two-dimension
  \<open>resize\<close> take the buffer length as the 32-bit product of width and height: whenever
  they return, the length is the product modulo \<open>2 ^ 32\<close>, which is not the product once
  the product reaches \<open>2 ^ 32\<close>. The constructor returns when the caller's storage holds
  that many points, the resize whenever the cloud owns its buffer.
\<close>

theorem product_in_32_bits:
  "(PointCloud_span hdr0 origin0 orientation0 data w h = Inr c \<longrightarrow>
      length (elems (points c)) = (unat w * unat h) mod 2 ^ 32) \<and>
   ((unat w * unat h) mod 2 ^ 32 \<le> length data \<longrightarrow>
      (\<exists>c. PointCloud_span hdr0 origin0 orientation0 data w h = Inr c)) \<and>
   (resize_wh dflt w h c0 = Inr c1 \<longrightarrow>
      length (elems (points c1)) = (unat w * unat h) mod 2 ^ 32) \<and>
   (mode (points c0) = Owning \<longrightarrow> (\<exists>c1. resize_wh dflt w h c0 = Inr c1)) \<and>
   (2 ^ 32 \<le> unat w * unat h \<longrightarrow> (unat w * unat h) mod 2 ^ 32 \<noteq> unat w * unat h)"
proof -
  have n: "unat (ucast (w * h) :: size_t) = (unat w * unat h) mod 2 ^ 32"
    by (simp add: unat_ucast_32_64 unat_word_ariths)
  have a: "PointCloud_span hdr0 origin0 orientation0 data w h = Inr c \<longrightarrow>
      length (elems (points c)) = (unat w * unat h) mod 2 ^ 32"
    by (auto simp: PointCloud_span_def sov_borrow_def n split: if_splits)
  have b: "(unat w * unat h) mod 2 ^ 32 \<le> length data \<longrightarrow>
      (\<exists>c. PointCloud_span hdr0 origin0 orientation0 data w h = Inr c)"
    by (simp add: PointCloud_span_def sov_borrow_def n)
  have c: "resize_wh dflt w h c0 = Inr c1 \<longrightarrow>
      length (elems (points c1)) = (unat w * unat h) mod 2 ^ 32"
    by (auto simp: resize_wh_def n split: sum.splits dest!: sov_resize_length)
  have "(unat w * unat h) mod 2 ^ 32 < (2::nat) ^ 32" by simp
  then have "\<not> sov_max_size < unat (ucast (w * h) :: size_t)"
    by (simp add: n sov_max_size_def)
  then have d: "mode (points c0) = Owning \<longrightarrow> (\<exists>c1. resize_wh dflt w h c0 = Inr c1)"
    by (simp add: resize_wh_def sov_resize_def)
  have e: "2 ^ 32 \<le> unat w * unat h \<longrightarrow> (unat w * unat h) mod 2 ^ 32 \<noteq> unat w * unat h"
  proof
    assume "2 ^ 32 \<le> unat w * unat h"
    moreover have "(unat w * unat h) mod 2 ^ 32 < (2::nat) ^ 32" by simp
    ultimately show "(unat w * unat h) mod 2 ^ 32 \<noteq> unat w * unat h" by linarith
  qed
  from a b c d e show ?thesis by blast
qed

theorem product_in_32_bits_witness:
  "PointCloud_span \<lparr>seq = 0, stamp = 0, frame_id = []\<rparr> () () [5, 6, 7 :: nat] 65536 65536
     = Inr (empty_cloud\<lparr>points := \<lparr>mode = Borrowing, elems = []\<rparr>,
                        width := 65536, height := 65536\<rparr>)
   \<and> (unat (65536 :: 32 word) * unat (65536 :: 32 word)) mod 2 ^ 32 = 0
   \<and> (2::nat) ^ 32 \<le> unat (65536 :: 32 word) * unat (65536 :: 32 word)
   \<and> mode (points empty_cloud) = Owning
   \<and> resize_wh 0 65536 65536 empty_cloud = Inr (empty_cloud\<lparr>width := 65536, height := 65536\<rparr>)"
  using product_in_32_bits [of "\<lparr>seq = 0, stamp = 0, frame_id = []\<rparr>" "()" "()"
      "[5, 6, 7 :: nat]" 65536 65536
      "empty_cloud\<lparr>points := \<lparr>mode = Borrowing, elems = []\<rparr>, width := 65536, height := 65536\<rparr>"
      0 empty_cloud "empty_cloud\<lparr>width := 65536, height := 65536\<rparr>"]
  by (simp add: PointCloud_span_def sov_borrow_def empty_cloud_def PointCloud_default_def
      resize_wh_def sov_resize_def sov_max_size_def)

section \<open>Growth of a borrowed buffer\<close>

text \<open>
  C2. For every cloud whose buffer borrows the caller's storage, every call that would
  lengthen the buffer (\<open>push_back\<close>, \<open>emplace_back\<close>, \<open>insert\<close> and \<open>emplace\<close> of at least one
  point, a \<open>resize\<close> to more points than it holds) throws the capacity error and leaves
  the cloud, hence the contents and the length of its buffer, as it was: there is no
  reallocation.
\<close>

theorem borrowing_growth_raises:
  assumes "mode (points c) = Borrowing"
  shows "push_back pt c = Inl (CapacityViolation, c) \<and>
     emplace_back pt c = Inl (CapacityViolation, c) \<and>
     insert_point position pt c = Inl (CapacityViolation, c) \<and>
     emplace position pt c = Inl (CapacityViolation, c) \<and>
     (0 < unat n \<longrightarrow> insert_n position n pt c = Inl (CapacityViolation, c)) \<and>
     (xs \<noteq> [] \<longrightarrow> insert_range position xs c = Inl (CapacityViolation, c)) \<and>
     (length (elems (points c)) < unat count \<longrightarrow>
        resize dflt count c = Inl (CapacityViolation, c)) \<and>
     (length (elems (points c)) < unat (scast icount :: size_t) \<longrightarrow>
        resize_value icount pt c = Inl (CapacityViolation, c)) \<and>
     (length (elems (points c)) < unat (ucast (w * h) :: size_t) \<longrightarrow>
        resize_wh dflt w h c = Inl (CapacityViolation, c))"
  using assms
  by (simp add: push_back_def emplace_back_def insert_point_def emplace_def insert_n_def
      insert_range_def resize_def resize_value_def resize_wh_def sov_push_back_def
      sov_insert_def sov_resize_def Let_def)

theorem borrowing_growth_raises_witness:
  "mode (points borrowed_row) = Borrowing \<and>
   push_back 40 borrowed_row = Inl (CapacityViolation, borrowed_row) \<and>
   insert_point 1 40 borrowed_row = Inl (CapacityViolation, borrowed_row) \<and>
   length (elems (points borrowed_row)) < unat (4 :: size_t) \<and>
   resize 0 4 borrowed_row = Inl (CapacityViolation, borrowed_row) \<and>
   elems (points borrowed_row) = [10, 20, 30]"
  using borrowing_growth_raises [of borrowed_row 40 1 1 "[40]" 4 0 4 2 2]
  by (simp add: borrowed_row_def)

section \<open>The shape after a plain mutating call\<close>

lemma sov_assign_length:
  "sov_assign xs b = Inr b' \<Longrightarrow> elems b' = xs"
  by (auto simp: sov_assign_def split: if_splits)

lemma collapse_matches:
  "shape_matches (c\<lparr>width := ucast (size_cloud c), height := 1\<rparr>)"
  by (simp add: shape_matches_def size_cloud_def sov_size_def ucast_of_nat_64_32)

lemma resize_matches: "resize dflt count c = Inr c' \<Longrightarrow> shape_matches c'"
proof -
  assume r: "resize dflt count c = Inr c'"
  then obtain b where b: "sov_resize count dflt (points c) = Inr b"
    by (auto simp: resize_def split: sum.splits)
  have len: "length (elems b) = unat count" using b by (rule sov_resize_length)
  show ?thesis
  proof (cases "(ucast (width c * height c) :: size_t) \<noteq> count")
    case True
    with r b have "c' = c\<lparr>points := b, width := ucast count, height := 1\<rparr>"
      by (simp add: resize_def Let_def)
    then show ?thesis by (simp add: shape_matches_def len)
  next
    case False
    then have eq: "count = ucast (width c * height c)" by simp
    from False r b have "c' = c\<lparr>points := b\<rparr>" by (simp add: resize_def Let_def)
    then show ?thesis by (simp add: shape_matches_def len eq ucast_ucast_32)
  qed
qed

lemma resize_wh_matches: "resize_wh dflt w h c = Inr c' \<Longrightarrow> shape_matches c'"
  by (auto simp: resize_wh_def shape_matches_def ucast_ucast_32 split: sum.splits
      dest!: sov_resize_length)

lemma resize_value_matches: "resize_value count v c = Inr c' \<Longrightarrow> shape_matches c'"
  by (auto simp: resize_value_def shape_matches_def ucast_scast_32 Let_def
      split: sum.splits if_splits dest!: sov_resize_length)

lemma resize_wh_value_matches: "resize_wh_value w h v c = Inr c' \<Longrightarrow> shape_matches c'"
  by (auto simp: resize_wh_value_def shape_matches_def ucast_scast_32 index_mul_def
      split: sum.splits if_splits dest!: sov_resize_length)

lemma assign_matches: "assign count v c = Inr c' \<Longrightarrow> shape_matches c'"
  by (auto simp: assign_def Let_def collapse_matches split: sum.splits)

lemma assign_wh_matches: "assign_wh w h v c = Inr c' \<Longrightarrow> shape_matches c'"
  by (auto simp: assign_wh_def shape_matches_def ucast_scast_32 index_mul_def
      split: sum.splits if_splits dest!: sov_assign_length)

lemma assign_range_matches: "assign_range xs c = Inr c' \<Longrightarrow> shape_matches c'"
  by (auto simp: assign_range_def Let_def collapse_matches split: sum.splits)

lemma assign_ilist_matches: "assign_ilist xs c = Inr c' \<Longrightarrow> shape_matches c'"
  by (auto simp: assign_ilist_def Let_def collapse_matches split: sum.splits)

lemma width_test_matches:
  "(ucast (width c * height c) :: size_t) = size_cloud c \<Longrightarrow> shape_matches c"
proof -
  assume "(ucast (width c * height c) :: size_t) = size_cloud c"
  then have "(ucast (ucast (width c * height c) :: size_t) :: 32 word) = ucast (size_cloud c)"
    by simp
  then show ?thesis
    by (simp add: ucast_ucast_32 shape_matches_def size_cloud_def sov_size_def ucast_of_nat_64_32)
qed

lemma assign_range_width_matches:
  "snd (assign_range_width xs w c) = Inr c' \<Longrightarrow> shape_matches c'"
proof (cases "w = 0")
  case True
  assume "snd (assign_range_width xs w c) = Inr c'"
  with True show ?thesis by (simp add: assign_range_width_def assign_range_matches)
next
  case False
  assume r: "snd (assign_range_width xs w c) = Inr c'"
  with False obtain b where b: "sov_assign xs (points c) = Inr b"
    by (auto simp: assign_range_width_def split: sum.splits)
  define c3 where "c3 = c\<lparr>points := b, width := w,
     height := ucast (size_cloud (c\<lparr>points := b, width := w\<rparr>) div ucast w)\<rparr>"
  show ?thesis
  proof (cases "(ucast (width c3 * height c3) :: size_t) \<noteq> size_cloud c3")
    case True
    with r b False have "c' = c3\<lparr>width := ucast (size_cloud c3), height := 1\<rparr>"
      by (simp add: assign_range_width_def Let_def c3_def)
    then show ?thesis by (simp add: collapse_matches)
  next
    case False
    with r b \<open>w \<noteq> 0\<close> have "c' = c3"
      by (simp add: assign_range_width_def Let_def c3_def)
    with False show ?thesis by (simp add: width_test_matches)
  qed
qed

lemma assign_ilist_width_eq:
  "assign_ilist_width xs w c = assign_range_width xs w c"
  by (simp add: assign_ilist_width_def assign_range_width_def assign_ilist_def assign_range_def)

lemma push_back_matches: "push_back pt c = Inr c' \<Longrightarrow> shape_matches c'"
  by (auto simp: push_back_def Let_def collapse_matches split: sum.splits)

lemma emplace_back_matches: "emplace_back pt c = Inr c' \<Longrightarrow> shape_matches c'"
  by (auto simp: emplace_back_def Let_def collapse_matches split: sum.splits)

lemma insert_point_matches: "insert_point position pt c = Inr c' \<Longrightarrow> shape_matches c'"
  by (auto simp: insert_point_def Let_def collapse_matches split: sum.splits)

lemma insert_n_matches: "insert_n position n pt c = Inr c' \<Longrightarrow> shape_matches c'"
  by (auto simp: insert_n_def Let_def collapse_matches split: sum.splits)

lemma insert_range_matches: "insert_range position xs c = Inr c' \<Longrightarrow> shape_matches c'"
  by (auto simp: insert_range_def Let_def collapse_matches split: sum.splits)

lemma emplace_matches: "emplace position pt c = Inr c' \<Longrightarrow> shape_matches c'"
  by (auto simp: emplace_def Let_def collapse_matches split: sum.splits)

lemma erase_matches: "erase position c = Inr c' \<Longrightarrow> shape_matches c'"
  by (auto simp: erase_def Let_def collapse_matches split: sum.splits)

lemma erase_range_matches: "erase_range first lst c = Inr c' \<Longrightarrow> shape_matches c'"
  by (auto simp: erase_range_def Let_def collapse_matches split: sum.splits)

lemma clear_matches: "shape_matches (clear c)"
  by (simp add: clear_def sov_clear_def shape_matches_def)

lemma concatenate_matches: "concatenate c1 c2 = Inr c' \<Longrightarrow> shape_matches c'"
proof -
  assume r: "concatenate c1 c2 = Inr c'"
  then obtain d where "c' = (d\<lparr>width := ucast (size_cloud d), height := 1\<rparr>)
      \<lparr>is_dense := (is_dense d \<and> is_dense c2)\<rparr>"
    by (auto simp: concatenate_def Let_def size_cloud_def split: sum.splits)
  then have "shape_matches c' = shape_matches (d\<lparr>width := ucast (size_cloud d), height := 1\<rparr>)"
    by (simp add: shape_matches_def)
  then show ?thesis by (simp add: collapse_matches)
qed

lemma run_call_matches: "run_call dflt m c = Inr c' \<Longrightarrow> shape_matches c'"
proof (cases m)
  case (Resize x) assume "run_call dflt m c = Inr c'"
  with Resize show ?thesis by (simp add: resize_matches)
next
  case (ResizeWH x y) assume "run_call dflt m c = Inr c'"
  with ResizeWH show ?thesis by (simp add: resize_wh_matches)
next
  case (ResizeValue x y) assume "run_call dflt m c = Inr c'"
  with ResizeValue show ?thesis by (simp add: resize_value_matches)
next
  case (ResizeWHValue x y z) assume "run_call dflt m c = Inr c'"
  with ResizeWHValue show ?thesis by (simp add: resize_wh_value_matches)
next
  case (Assign x y) assume "run_call dflt m c = Inr c'"
  with Assign show ?thesis by (simp add: assign_matches)
next
  case (AssignWH x y z) assume "run_call dflt m c = Inr c'"
  with AssignWH show ?thesis by (simp add: assign_wh_matches)
next
  case (AssignRange x) assume "run_call dflt m c = Inr c'"
  with AssignRange show ?thesis by (simp add: assign_range_matches)
next
  case (AssignRangeWidth x y) assume "run_call dflt m c = Inr c'"
  with AssignRangeWidth show ?thesis by (simp add: assign_range_width_matches)
next
  case (AssignIlist x) assume "run_call dflt m c = Inr c'"
  with AssignIlist show ?thesis by (simp add: assign_ilist_matches)
next
  case (AssignIlistWidth x y) assume "run_call dflt m c = Inr c'"
  with AssignIlistWidth show ?thesis
    by (simp add: assign_ilist_width_eq assign_range_width_matches)
next
  case (PushBack x) assume "run_call dflt m c = Inr c'"
  with PushBack show ?thesis by (simp add: push_back_matches)
next
  case (EmplaceBack x) assume "run_call dflt m c = Inr c'"
  with EmplaceBack show ?thesis by (simp add: emplace_back_matches)
next
  case (InsertPoint x y) assume "run_call dflt m c = Inr c'"
  with InsertPoint show ?thesis by (simp add: insert_point_matches)
next
  case (InsertN x y z) assume "run_call dflt m c = Inr c'"
  with InsertN show ?thesis by (simp add: insert_n_matches)
next
  case (InsertRange x y) assume "run_call dflt m c = Inr c'"
  with InsertRange show ?thesis by (simp add: insert_range_matches)
next
  case (Emplace x y) assume "run_call dflt m c = Inr c'"
  with Emplace show ?thesis by (simp add: emplace_matches)
next
  case (Erase x) assume "run_call dflt m c = Inr c'"
  with Erase show ?thesis by (simp add: erase_matches)
next
  case (EraseRange x y) assume "run_call dflt m c = Inr c'"
  with EraseRange show ?thesis by (simp add: erase_range_matches)
next
  case Clear assume "run_call dflt m c = Inr c'"
  with Clear show ?thesis using clear_matches [of c] by auto
next
  case (Concatenate x) assume "run_call dflt m c = Inr c'"
  with Concatenate show ?thesis by (simp add: concatenate_matches)
next
  case (ConcatenateOut x y) assume "run_call dflt m c = Inr c'"
  with ConcatenateOut show ?thesis by (simp add: concatenate_out_def concatenate_matches)
qed

text \<open>
  C1 (amended). \<open>isOrganized()\<close> is \<open>height > 1\<close>. After a plain mutating call that returns
  (\<open>resize\<close>, \<open>assign\<close>, \<open>push_back\<close>, \<open>emplace_back\<close>, \<open>insert\<close>, \<open>emplace\<close>, \<open>erase\<close>,
  \<open>clear\<close>, \<open>concatenate\<close>, in all their overloads), the product \<open>width * height\<close> taken in
  unsigned 32-bit arithmetic is the buffer length modulo \<open>2 ^ 32\<close>; it is the buffer length
  itself whenever the buffer holds fewer than \<open>2 ^ 32\<close> points.
\<close>

theorem invariant_modulo_2_32:
  "isOrganized g = (1 < height g) \<and>
   (run_call dflt m c = Inr c' \<longrightarrow>
      width c' * height c' = of_nat (length (elems (points c'))) \<and>
      (length (elems (points c')) < 2 ^ 32 \<longrightarrow>
         unat (width c' * height c') = length (elems (points c'))))"
proof -
  have "run_call dflt m c = Inr c' \<longrightarrow> shape_matches c'"
    by (rule impI) (rule run_call_matches)
  then show ?thesis
    by (simp add: isOrganized_def shape_matches_def unat_of_nat_32)
qed

theorem invariant_modulo_2_32_witness:
  "run_call 0 (PushBack 70) grid_3x2
     = Inr (grid_3x2\<lparr>points := \<lparr>mode = Owning, elems = [10, 20, 30, 40, 50, 60, 70]\<rparr>,
                     width := 7, height := 1\<rparr>) \<and>
   \<not> isOrganized (grid_3x2\<lparr>points := \<lparr>mode = Owning, elems = [10, 20, 30, 40, 50, 60, 70]\<rparr>,
                     width := 7, height := 1\<rparr>)"
  using invariant_modulo_2_32 [of grid_3x2 0 "PushBack 70" grid_3x2
      "grid_3x2\<lparr>points := \<lparr>mode = Owning, elems = [10, 20, 30, 40, 50, 60, 70]\<rparr>,
                     width := 7, height := 1\<rparr>"]
  by (simp add: push_back_def sov_push_back_def sov_max_size_def grid_3x2_def empty_cloud_def
      PointCloud_default_def size_cloud_def sov_size_def Let_def isOrganized_def)

text \<open>
  C1 as stated fails in two ways. \<open>resize(4294967296)\<close> on an empty cloud leaves
  \<open>2 ^ 32\<close> points with width 0 and height 1. \<open>resize(65536, 65536)\<close> on an empty cloud
  leaves no point with width and height 65536, whose product is \<open>2 ^ 32\<close>.
\<close>

theorem invariant_counterexample:
  "resize 0 4294967296 empty_cloud = Inr overflown_cloud \<and>
   length (elems (points overflown_cloud)) = 4294967296 \<and>
   unat (width overflown_cloud * height overflown_cloud) = 0 \<and>
   unat (width overflown_cloud) * unat (height overflown_cloud) = 0 \<and>
   resize_wh 0 65536 65536 empty_cloud = Inr square_cloud \<and>
   length (elems (points square_cloud)) = 0 \<and>
   unat (width square_cloud) * unat (height square_cloud) = 4294967296"
  by (simp add: resize_def resize_wh_def sov_resize_def sov_max_size_def overflown_cloud_def
      square_cloud_def empty_cloud_def PointCloud_default_def)

section \<open>The shape after a single-dimension call\<close>

lemma ucast_eq_iff_unat: "((ucast (x :: 32 word) :: size_t) = n) = (unat x = unat n)"
  by (simp add: word_unat_eq_iff unat_ucast_32_64)

lemma resize_shape:
  assumes "resize dflt count c = Inr c'"
  shows "length (elems (points c')) = unat count \<and>
     (if unat (width c * height c) \<noteq> length (elems (points c'))
      then width c' = of_nat (length (elems (points c'))) \<and> height c' = 1
      else width c' = width c \<and> height c' = height c)"
proof -
  from assms obtain b where b: "sov_resize count dflt (points c) = Inr b"
    by (auto simp: resize_def split: sum.splits)
  have len: "length (elems b) = unat count" using b by (rule sov_resize_length)
  show ?thesis
  proof (cases "(ucast (width c * height c) :: size_t) = count")
    case True
    with assms b have c': "c' = c\<lparr>points := b\<rparr>" by (simp add: resize_def Let_def)
    from True have "unat (width c * height c) = unat count" by (simp add: ucast_eq_iff_unat)
    with c' len show ?thesis by simp
  next
    case False
    with assms b have c': "c' = c\<lparr>points := b, width := ucast count, height := 1\<rparr>"
      by (simp add: resize_def Let_def)
    from False have "unat (width c * height c) \<noteq> unat count" by (simp add: ucast_eq_iff_unat)
    with c' len show ?thesis by simp
  qed
qed

lemma resize_value_shape:
  assumes "resize_value count v c = Inr c'" and "length (elems (points c')) < 2 ^ 32"
  shows "length (elems (points c')) = unat count \<and>
     (if unat (width c * height c) \<noteq> length (elems (points c'))
      then width c' = of_nat (length (elems (points c'))) \<and> height c' = 1
      else width c' = width c \<and> height c' = height c)"
proof -
  from assms obtain b where b: "sov_resize (scast count) v (points c) = Inr b"
    by (auto simp: resize_value_def split: sum.splits)
  have len: "length (elems b) = unat (scast count :: size_t)" using b by (rule sov_resize_length)
  have pts: "points c' = b"
  proof (cases "width c * height c = count")
    case True
    with assms(1) b have "c' = c\<lparr>points := b\<rparr>" by (simp add: resize_value_def Let_def)
    then show ?thesis by simp
  next
    case False
    with assms(1) b have "c' = c\<lparr>points := b, width := count, height := 1\<rparr>"
      by (simp add: resize_value_def Let_def)
    then show ?thesis by simp
  qed
  have "(of_nat (unat (scast count :: size_t)) :: 32 word) = count"
    by (simp add: ucast_scast_32)
  then have w: "(of_nat (length (elems b)) :: 32 word) = count" by (simp only: len)
  have "length (elems b) < 2 ^ 32" using assms(2) pts by simp
  then have "unat (of_nat (length (elems b)) :: 32 word) = length (elems b)"
    by (rule unat_of_nat_32)
  then have cnt: "unat count = length (elems b)" by (simp only: w)
  show ?thesis
  proof (cases "width c * height c = count")
    case True
    with assms(1) b have c': "c' = c\<lparr>points := b\<rparr>" by (simp add: resize_value_def Let_def)
    from True have "unat (width c * height c) = length (elems b)" by (simp only: cnt)
    with c' have p4: "unat (width c * height c) = length (elems (points c'))" by simp
    have p1: "length (elems (points c')) = unat count" using c' cnt by simp
    have p2: "width c' = width c" using c' by simp
    have p3: "height c' = height c" using c' by simp
    from p1 p2 p3 p4 show ?thesis by (simp only: simp_thms if_False)
  next
    case False
    with assms(1) b have c': "c' = c\<lparr>points := b, width := count, height := 1\<rparr>"
      by (simp add: resize_value_def Let_def)
    from False have "unat (width c * height c) \<noteq> unat count" by (simp add: word_unat_eq_iff)
    then have "unat (width c * height c) \<noteq> length (elems b)" using cnt by simp
    with c' have p4: "unat (width c * height c) \<noteq> length (elems (points c'))" by simp
    have p1: "length (elems (points c')) = unat count" using c' cnt by simp
    have p2: "width c' = of_nat (length (elems (points c')))" using c' w by simp
    have p3: "height c' = 1" using c' by simp
    from p1 p2 p3 p4 show ?thesis by (simp only: simp_thms if_True)
  qed
qed

text \<open>
  C3 (amended). The two single-dimension \<open>resize\<close> compare the new length with the old
  \<open>width * height\<close> (a 32-bit product): when they differ the cloud collapses to
  width = new length (cut to 32 bits) and height = 1, when they agree width and height stay.
  \<open>assign(count, value)\<close>, \<open>assign(first, last)\<close>, \<open>assign(ilist)\<close>, the three \<open>insert\<close> and
  the two \<open>erase\<close> make no such comparison: they always set width = new length (cut to
  32 bits) and height = 1. A length below \<open>2 ^ 32\<close> is not changed by the cut.
\<close>

theorem single_dimension_shape:
  "(resize dflt count c = Inr c' \<longrightarrow>
      length (elems (points c')) = unat count \<and>
      (if unat (width c * height c) \<noteq> length (elems (points c'))
       then width c' = of_nat (length (elems (points c'))) \<and> height c' = 1
       else width c' = width c \<and> height c' = height c)) \<and>
   (resize_value icount v c = Inr c' \<and> length (elems (points c')) < 2 ^ 32 \<longrightarrow>
      length (elems (points c')) = unat icount \<and>
      (if unat (width c * height c) \<noteq> length (elems (points c'))
       then width c' = of_nat (length (elems (points c'))) \<and> height c' = 1
       else width c' = width c \<and> height c' = height c)) \<and>
   (assign icount v c = Inr c' \<or> assign_range xs c = Inr c' \<or> assign_ilist xs c = Inr c' \<or>
    insert_point position v c = Inr c' \<or> insert_n position n v c = Inr c' \<or>
    insert_range position xs c = Inr c' \<or> erase position c = Inr c' \<or>
    erase_range first lst c = Inr c' \<longrightarrow>
      width c' = of_nat (length (elems (points c'))) \<and> height c' = 1) \<and>
   (length (elems (points c')) < 2 ^ 32 \<longrightarrow>
      unat (of_nat (length (elems (points c'))) :: uint32_t) = length (elems (points c')))"
proof -
  have a: "resize dflt count c = Inr c' \<longrightarrow>
      length (elems (points c')) = unat count \<and>
      (if unat (width c * height c) \<noteq> length (elems (points c'))
       then width c' = of_nat (length (elems (points c'))) \<and> height c' = 1
       else width c' = width c \<and> height c' = height c)"
    by (rule impI) (rule resize_shape)
  have b: "resize_value icount v c = Inr c' \<and> length (elems (points c')) < 2 ^ 32 \<longrightarrow>
      length (elems (points c')) = unat icount \<and>
      (if unat (width c * height c) \<noteq> length (elems (points c'))
       then width c' = of_nat (length (elems (points c'))) \<and> height c' = 1
       else width c' = width c \<and> height c' = height c)"
    by (rule impI) (erule conjE, rule resize_value_shape)
  have c1: "assign icount v c = Inr c' \<longrightarrow>
      width c' = of_nat (length (elems (points c'))) \<and> height c' = 1"
    by (auto simp: assign_def Let_def size_cloud_def sov_size_def ucast_of_nat_64_32 split: sum.splits)
  have c2: "assign_range xs c = Inr c' \<longrightarrow>
      width c' = of_nat (length (elems (points c'))) \<and> height c' = 1"
    by (auto simp: assign_range_def Let_def size_cloud_def sov_size_def ucast_of_nat_64_32 split: sum.splits)
  have c3: "assign_ilist xs c = Inr c' \<longrightarrow>
      width c' = of_nat (length (elems (points c'))) \<and> height c' = 1"
    by (auto simp: assign_ilist_def Let_def size_cloud_def sov_size_def ucast_of_nat_64_32 split: sum.splits)
  have c4: "insert_point position v c = Inr c' \<longrightarrow>
      width c' = of_nat (length (elems (points c'))) \<and> height c' = 1"
    by (auto simp: insert_point_def Let_def size_cloud_def sov_size_def ucast_of_nat_64_32 split: sum.splits)
  have c5: "insert_n position n v c = Inr c' \<longrightarrow>
      width c' = of_nat (length (elems (points c'))) \<and> height c' = 1"
    by (auto simp: insert_n_def Let_def size_cloud_def sov_size_def ucast_of_nat_64_32 split: sum.splits)
  have c6: "insert_range position xs c = Inr c' \<longrightarrow>
      width c' = of_nat (length (elems (points c'))) \<and> height c' = 1"
    by (auto simp: insert_range_def Let_def size_cloud_def sov_size_def ucast_of_nat_64_32 split: sum.splits)
  have c7: "erase position c = Inr c' \<longrightarrow>
      width c' = of_nat (length (elems (points c'))) \<and> height c' = 1"
    by (auto simp: erase_def Let_def size_cloud_def sov_size_def ucast_of_nat_64_32 split: sum.splits)
  have c8: "erase_range first lst c = Inr c' \<longrightarrow>
      width c' = of_nat (length (elems (points c'))) \<and> height c' = 1"
    by (auto simp: erase_range_def Let_def size_cloud_def sov_size_def ucast_of_nat_64_32 split: sum.splits)
  have d: "length (elems (points c')) < 2 ^ 32 \<longrightarrow>
      unat (of_nat (length (elems (points c'))) :: uint32_t) = length (elems (points c'))"
    by (simp add: unat_of_nat_32)
  from a b c1 c2 c3 c4 c5 c6 c7 c8 d show ?thesis by blast
qed

theorem single_dimension_shape_witness:
  "resize 0 6 grid_3x2 = Inr grid_3x2 \<and>
   resize_value 6 0 grid_3x2 = Inr grid_3x2 \<and>
   length (elems (points grid_3x2)) < 2 ^ 32 \<and>
   unat (width grid_3x2 * height grid_3x2) = 6 \<and>
   resize 0 4 grid_3x2 = Inr (grid_3x2\<lparr>points := \<lparr>mode = Owning, elems = [10, 20, 30, 40]\<rparr>,
                                        width := 4, height := 1\<rparr>) \<and>
   assign 6 0 grid_3x2 = Inr row_of_6 \<and>
   erase 0 grid_3x2 = Inr (grid_3x2\<lparr>points := \<lparr>mode = Owning, elems = [20, 30, 40, 50, 60]\<rparr>,
                                        width := 5, height := 1\<rparr>)"
  using single_dimension_shape [of 0 6 grid_3x2 grid_3x2 6 0 "[]" 0 0 0 0]
    single_dimension_shape [of 0 4 grid_3x2
      "grid_3x2\<lparr>points := \<lparr>mode = Owning, elems = [10, 20, 30, 40]\<rparr>, width := 4, height := 1\<rparr>"
      4 0 "[]" 0 0 0 0]
    single_dimension_shape [of 0 6 grid_3x2 row_of_6 6 0 "[]" 0 0 0 0]
    single_dimension_shape [of 0 6 grid_3x2
      "grid_3x2\<lparr>points := \<lparr>mode = Owning, elems = [20, 30, 40, 50, 60]\<rparr>, width := 5, height := 1\<rparr>"
      6 0 "[]" 0 0 0 0]
  by (simp add: resize_def resize_value_def sov_resize_def sov_max_size_def grid_3x2_def
      erase_def sov_erase_def assign_def sov_assign_def row_of_6_def empty_cloud_def
      PointCloud_default_def size_cloud_def sov_size_def Let_def)

text \<open>
  C3 as stated fails for \<open>assign\<close>: on a cloud of width 3 and height 2, \<open>assign(6, 0)\<close>
  leaves 6 points, the old \<open>width * height\<close>, and yet sets width 6 and height 1. It
  also fails on the width once the length reaches \<open>2 ^ 32\<close>: \<open>resize(4294967296)\<close> on an
  empty cloud collapses to width 0.
\<close>

theorem single_dimension_counterexample:
  "assign 6 0 grid_3x2 = Inr row_of_6 \<and>
   length (elems (points row_of_6)) = unat (width grid_3x2) * unat (height grid_3x2) \<and>
   width row_of_6 \<noteq> width grid_3x2 \<and> height row_of_6 \<noteq> height grid_3x2 \<and>
   resize 0 4294967296 empty_cloud = Inr overflown_cloud \<and>
   length (elems (points overflown_cloud)) \<noteq> unat (width empty_cloud) * unat (height empty_cloud) \<and>
   unat (width overflown_cloud) \<noteq> length (elems (points overflown_cloud))"
  by (simp add: assign_def sov_assign_def sov_max_size_def grid_3x2_def row_of_6_def
      empty_cloud_def PointCloud_default_def size_cloud_def sov_size_def Let_def
      resize_def sov_resize_def overflown_cloud_def)

section \<open>Concatenation of two clouds\<close>

lemma concatenate_returns:
  assumes "concatenate a b = Inr c"
  shows "concatenation_of a b c"
proof -
  let ?a1 = "a\<lparr>header := (header a)\<lparr>stamp := max (stamp (header a)) (stamp (header b))\<rparr>\<rparr>"
  from assms obtain d where d: "sov_insert (length (elems (points a))) (elems (points b)) (points a) = Inr d"
    by (auto simp: concatenate_def insert_range_def Let_def split: sum.splits)
  then have el: "elems d = elems (points a) @ elems (points b)"
    by (auto simp: sov_insert_def split: if_splits)
  from assms d have c: "c = ?a1\<lparr>points := d, width := ucast (size_cloud (?a1\<lparr>points := d\<rparr>)),
      height := 1, is_dense := (is_dense a \<and> is_dense b)\<rparr>"
    by (simp add: concatenate_def insert_range_def Let_def size_cloud_def)
  have sz: "size_cloud (?a1\<lparr>points := d\<rparr>)
      = of_nat (length (elems (points a)) + length (elems (points b)))"
    by (simp add: size_cloud_def sov_size_def el)
  have "width c = ucast (size_cloud (?a1\<lparr>points := d\<rparr>))" by (simp add: c)
  then have w: "width c = of_nat (length (elems (points a)) + length (elems (points b)))"
    by (simp only: sz ucast_of_nat_64_32)
  have "length (elems (points a)) + length (elems (points b)) < 2 ^ 32 \<longrightarrow>
        unat (width c) = length (elems (points a)) + length (elems (points b))"
    by (simp only: w) (simp add: unat_of_nat_32 del: of_nat_add)
  moreover have "elems (points c) = elems (points a) @ elems (points b)" by (simp add: c el)
  moreover have "height c = 1" by (simp add: c)
  moreover have "stamp (header c) = max (stamp (header a)) (stamp (header b))" by (simp add: c)
  moreover have "is_dense c = (is_dense a \<and> is_dense b)" by (simp add: c)
  ultimately show ?thesis using w by (simp only: concatenation_of_def simp_thms)
qed

lemma concatenate_owning_returns:
  assumes "mode (points a) = Owning"
    and "length (elems (points a)) + length (elems (points b)) \<le> sov_max_size"
  shows "\<exists>c. concatenate a b = Inr c"
  using assms by (simp add: concatenate_def insert_range_def sov_insert_def Let_def)

text \<open>
  C4 (amended). Whenever \<open>concatenate(a, b)\<close> returns, in place on \<open>a\<close> or into
  \<open>cloud_out\<close>, the result holds the points of \<open>a\<close> followed by those of \<open>b\<close>, its
  width is the combined length modulo \<open>2 ^ 32\<close> (the combined length itself when that is
  below \<open>2 ^ 32\<close>), its height is 1, its stamp is the larger of the two stamps and its
  \<open>is_dense\<close> is the conjunction of the two. The three-argument form returns for every
  pair whose combined length the buffer can hold, the in-place form when \<open>a\<close> moreover
  owns its buffer.
\<close>

theorem concatenate_result:
  "(concatenate a b = Inr c \<longrightarrow> concatenation_of a b c) \<and>
   (concatenate_out a b cloud_out = Inr c \<longrightarrow> concatenation_of a b c) \<and>
   (mode (points a) = Owning \<and>
    length (elems (points a)) + length (elems (points b)) \<le> sov_max_size \<longrightarrow>
      (\<exists>c. concatenate a b = Inr c)) \<and>
   (length (elems (points a)) + length (elems (points b)) \<le> sov_max_size \<longrightarrow>
      (\<exists>c. concatenate_out a b cloud_out = Inr c))"
proof -
  let ?a = "a\<lparr>points := sov_copy (points a)\<rparr>"
  have p1: "concatenate a b = Inr c \<longrightarrow> concatenation_of a b c"
    by (rule impI) (rule concatenate_returns)
  have same: "concatenation_of ?a b c = concatenation_of a b c"
    by (simp add: concatenation_of_def sov_copy_def)
  have "concatenate ?a b = Inr c \<longrightarrow> concatenation_of ?a b c"
    by (rule impI) (rule concatenate_returns)
  then have p2: "concatenate_out a b cloud_out = Inr c \<longrightarrow> concatenation_of a b c"
    by (simp add: concatenate_out_def same)
  have p3: "mode (points a) = Owning \<and>
    length (elems (points a)) + length (elems (points b)) \<le> sov_max_size \<longrightarrow>
      (\<exists>c. concatenate a b = Inr c)"
    using concatenate_owning_returns [of a b] by blast
  have p4: "length (elems (points a)) + length (elems (points b)) \<le> sov_max_size \<longrightarrow>
      (\<exists>c. concatenate_out a b cloud_out = Inr c)"
    using concatenate_owning_returns [of ?a b] by (simp add: concatenate_out_def sov_copy_def)
  from p1 p2 p3 p4 show ?thesis by blast
qed

theorem concatenate_result_witness:
  "concatenate_out borrowed_row one_point empty_cloud
     = Inr (empty_cloud\<lparr>header := \<lparr>seq = 0, stamp = 5, frame_id = []\<rparr>,
              points := \<lparr>mode = Owning, elems = [10, 20, 30, 7]\<rparr>,
              width := 4, height := 1, is_dense := False\<rparr>) \<and>
   concatenate grid_3x2 one_point
     = Inr (empty_cloud\<lparr>header := \<lparr>seq = 0, stamp = 5, frame_id = []\<rparr>,
              points := \<lparr>mode = Owning, elems = [10, 20, 30, 40, 50, 60, 7]\<rparr>,
              width := 7, height := 1, is_dense := False\<rparr>) \<and>
   mode (points grid_3x2) = Owning \<and>
   length (elems (points grid_3x2)) + length (elems (points one_point)) \<le> sov_max_size"
  using concatenate_result [of grid_3x2 one_point
      "empty_cloud\<lparr>header := \<lparr>seq = 0, stamp = 5, frame_id = []\<rparr>,
              points := \<lparr>mode = Owning, elems = [10, 20, 30, 40, 50, 60, 7]\<rparr>,
              width := 7, height := 1, is_dense := False\<rparr>" empty_cloud]
  by (simp add: concatenate_out_def concatenate_def insert_range_def sov_insert_def sov_copy_def
      sov_max_size_def borrowed_row_def grid_3x2_def one_point_def empty_cloud_def
      PointCloud_default_def size_cloud_def sov_size_def Let_def)

text \<open>
  C4 as stated fails on the width once the combined length reaches \<open>2 ^ 32\<close>: a row of
  \<open>2 ^ 32 - 1\<close> points and a single point make \<open>2 ^ 32\<close> points of width 0.
\<close>

theorem concatenate_counterexample:
  "concatenate long_row one_point = Inr long_row_and_one \<and>
   length (elems (points long_row_and_one)) = 4294967296 \<and>
   unat (width long_row_and_one) = 0"
  by (simp add: concatenate_def insert_range_def sov_insert_def sov_max_size_def long_row_def
      one_point_def long_row_and_one_def empty_cloud_def PointCloud_default_def size_cloud_def
      sov_size_def Let_def)

section \<open>Access by column and row\<close>

lemma unat_at_offset:
  "unat (at_offset w column row) = (unat row * unat w + unat column) mod 2 ^ 32"
  by (simp add: at_offset_def unat_ucast_32_64 unat_word_ariths mod_add_left_eq)

lemma unat_call_offset:
  "unat (call_offset w column row) = (unat row * unat w + unat column) mod 2 ^ 64"
  by (simp add: call_offset_def unat_ucast_32_64 unat_word_ariths mod_add_left_eq)

lemma offsets_agree:
  assumes "unat row * unat w + unat column < 2 ^ 32"
  shows "call_offset w (ucast column) (ucast row) = at_offset w column row"
proof -
  from assms have small: "unat row * unat w + unat column < 2 ^ 64" by simp
  have "unat (call_offset w (ucast column) (ucast row)) = unat row * unat w + unat column"
    using small by (simp add: unat_call_offset unat_ucast_32_64)
  moreover have "unat (at_offset w column row) = unat row * unat w + unat column"
    using assms by (simp add: unat_at_offset)
  ultimately show ?thesis by (simp add: word_unat_eq_iff)
qed

text \<open>
  C5 (amended). \<open>at(col, row)\<close> raises the unorganized-access error when \<open>height \<le> 1\<close>.
  When \<open>height > 1\<close> it computes \<open>row * width + col\<close> in unsigned 32-bit arithmetic, that
  is modulo \<open>2 ^ 32\<close>, and returns the element at that offset, or raises the out-of-range
  error when that offset is not smaller than the length. \<open>operator()(col, row)\<close> makes
  neither check and computes \<open>row * width + col\<close> in \<open>size_t\<close>, modulo \<open>2 ^ 64\<close>; reading
  past the end is undefined. The two offsets are the same whenever \<open>row * width + col\<close>
  is below \<open>2 ^ 32\<close>.
\<close>

theorem at_2d_and_call_2d:
  "(\<not> 1 < height c \<longrightarrow> at_2d column row c = Inl UnorganizedPointCloudException) \<and>
   (1 < height c \<longrightarrow>
      at_2d column row c =
        (if (unat row * unat (width c) + unat column) mod 2 ^ 32 < length (elems (points c))
         then Inr (elems (points c) ! ((unat row * unat (width c) + unat column) mod 2 ^ 32))
         else Inl OutOfRange)) \<and>
   call_2d column' row' c =
     (if (unat row' * unat (width c) + unat column') mod 2 ^ 64 < length (elems (points c))
      then Inr (elems (points c) ! ((unat row' * unat (width c) + unat column') mod 2 ^ 64))
      else Inl UndefinedBehaviour) \<and>
   (unat row * unat (width c) + unat column < 2 ^ 32 \<longrightarrow>
      call_offset (width c) (ucast column) (ucast row) = at_offset (width c) column row)"
proof -
  have a: "\<not> 1 < height c \<longrightarrow> at_2d column row c = Inl UnorganizedPointCloudException"
    by (simp add: at_2d_def)
  have b: "1 < height c \<longrightarrow>
      at_2d column row c =
        (if (unat row * unat (width c) + unat column) mod 2 ^ 32 < length (elems (points c))
         then Inr (elems (points c) ! ((unat row * unat (width c) + unat column) mod 2 ^ 32))
         else Inl OutOfRange)"
    by (simp add: at_2d_def sov_at_def unat_at_offset)
  have c: "call_2d column' row' c =
     (if (unat row' * unat (width c) + unat column') mod 2 ^ 64 < length (elems (points c))
      then Inr (elems (points c) ! ((unat row' * unat (width c) + unat column') mod 2 ^ 64))
      else Inl UndefinedBehaviour)"
    by (simp add: call_2d_def sov_index_def unat_call_offset)
  have d: "unat row * unat (width c) + unat column < 2 ^ 32 \<longrightarrow>
      call_offset (width c) (ucast column) (ucast row) = at_offset (width c) column row"
    by (rule impI) (rule offsets_agree)
  from a b c d show ?thesis by (simp only: simp_thms)
qed

theorem at_2d_and_call_2d_witness:
  "1 < height grid_3x2 \<and> at_2d 1 1 grid_3x2 = Inr 50 \<and> call_2d 1 1 grid_3x2 = Inr 50 \<and>
   unat (1 :: c_int) * unat (width grid_3x2) + unat (1 :: c_int) < 2 ^ 32 \<and>
   call_offset (width grid_3x2) 1 1 = at_offset (width grid_3x2) 1 1 \<and>
   at_2d 0 2 grid_3x2 = Inl OutOfRange \<and>
   \<not> 1 < height borrowed_row \<and>
   at_2d 1 0 borrowed_row = Inl UnorganizedPointCloudException \<and>
   call_2d 1 0 borrowed_row = Inr 20"
  using at_2d_and_call_2d [of grid_3x2 1 1 1 1] at_2d_and_call_2d [of grid_3x2 0 2 0 2]
    at_2d_and_call_2d [of borrowed_row 1 0 1 0]
  by (simp add: grid_3x2_def borrowed_row_def empty_cloud_def PointCloud_default_def)

text \<open>
  C5 as stated fails when the product overflows 32 bits. On a cloud of width 65536 and
  height 2 with its 131072 points, \<open>at(0, 65536)\<close> has the offset \<open>65536 * 65536\<close>, far
  beyond the length, and returns the first point instead of raising; \<open>operator()(0, 65536)\<close>
  computes another index, \<open>2 ^ 32\<close>.
\<close>

theorem at_2d_counterexample:
  "1 < height tall_grid \<and> length (elems (points tall_grid)) = 131072 \<and>
   at_2d 0 65536 tall_grid = Inr 42 \<and> elems (points tall_grid) ! 0 = 42 \<and>
   at_offset (width tall_grid) 0 65536 = 0 \<and>
   call_offset (width tall_grid) 0 65536 = 4294967296 \<and>
   call_2d 0 65536 tall_grid = Inl UndefinedBehaviour"
  by (simp add: tall_grid_def empty_cloud_def PointCloud_default_def at_2d_def at_offset_def
      call_2d_def call_offset_def sov_at_def sov_index_def)

section \<open>Assignment with a requested width\<close>

lemma unat_of_nat_64: "n < 2 ^ 32 \<Longrightarrow> unat (of_nat n :: 64 word) = n"
proof -
  assume "n < 2 ^ 32"
  then have "n < 2 ^ 64" by simp
  then show ?thesis by (simp add: unsigned_of_nat take_bit_nat_eq_self)
qed

lemma height_of_width:
  assumes "n < 2 ^ 32"
  shows "(ucast ((of_nat n :: size_t) div ucast (w :: 32 word)) :: 32 word) = of_nat (n div unat w)"
proof -
  have "unat ((of_nat n :: size_t) div ucast w) = n div unat w"
    using assms by (simp add: unat_div unat_of_nat_64 unat_ucast_32_64)
  then have "(of_nat (unat ((of_nat n :: size_t) div ucast w)) :: 32 word) = of_nat (n div unat w)"
    by simp
  then show ?thesis by simp
qed

lemma width_test_dvd:
  assumes "n < 2 ^ 32"
  shows "((ucast (w * of_nat (n div unat w) :: 32 word) :: size_t) = of_nat n) = (unat w dvd n)"
proof -
  have q: "n div unat w < 2 ^ 32" using assms by (meson div_le_dividend le_less_trans)
  have "unat w * (n div unat w) \<le> n" by simp
  then have p: "unat w * (n div unat w) < 2 ^ 32" using assms by linarith
  have "unat (w * of_nat (n div unat w) :: 32 word) = (unat w * (n div unat w)) mod 2 ^ 32"
    using q by (simp add: unat_word_ariths unat_of_nat_32)
  also have "\<dots> = unat w * (n div unat w)" using p by simp
  finally have u: "unat (w * of_nat (n div unat w) :: 32 word) = unat w * (n div unat w)" .
  have "((ucast (w * of_nat (n div unat w) :: 32 word) :: size_t) = of_nat n)
      = (unat w * (n div unat w) = n)"
    using assms by (simp add: ucast_eq_iff_unat u unat_of_nat_64)
  also have "\<dots> = (unat w dvd n)"
    by (metis dvd_mult_div_cancel dvd_triv_left)
  finally show ?thesis .
qed

lemma assign_range_width_policy:
  assumes b: "sov_assign xs (points c) = Inr b" and n: "length xs < 2 ^ 32"
  shows "assign_range_width xs w c =
    (if w = 0 then ([ZeroWidthWarning],
                    Inr (c\<lparr>points := b, width := of_nat (length xs), height := 1\<rparr>))
     else if unat w dvd length xs
       then ([], Inr (c\<lparr>points := b, width := w, height := of_nat (length xs div unat w)\<rparr>))
     else ([MismatchWarning (ucast w) (of_nat (length xs))],
           Inr (c\<lparr>points := b, width := of_nat (length xs), height := 1\<rparr>)))"
proof -
  have el: "elems b = xs" using b by (rule sov_assign_length)
  show ?thesis
  proof (cases "w = 0")
    case True
    then show ?thesis
      using b by (simp add: assign_range_width_def assign_range_def Let_def size_cloud_def
          sov_size_def el ucast_of_nat_64_32)
  next
    case False
    have h: "(ucast ((of_nat (length xs) :: size_t) div ucast w) :: 32 word)
        = of_nat (length xs div unat w)"
      using n by (rule height_of_width)
    have t: "((ucast (w * of_nat (length xs div unat w) :: 32 word) :: size_t)
        = of_nat (length xs)) = (unat w dvd length xs)"
      using n by (rule width_test_dvd)
    show ?thesis
      using False b
      by (simp add: assign_range_width_def Let_def size_cloud_def sov_size_def el h t
          ucast_of_nat_64_32)
  qed
qed

lemma assign_range_width_throws:
  "(\<exists>x. snd (assign_range_width xs w c) = Inl x) = (\<exists>e. sov_assign xs (points c) = Inl e)"
  by (cases "sov_assign xs (points c)")
     (simp_all add: assign_range_width_def assign_range_def Let_def)

text \<open>
  C6 (amended). Take a width-qualified assignment \<open>assign(first, last, new_width)\<close> or
  \<open>assign(ilist, new_width)\<close> of fewer than \<open>2 ^ 32\<close> points whose buffer assignment
  succeeds, \<open>new_width\<close> being read as the unsigned 32-bit number stored in \<open>width\<close>. When
  \<open>new_width\<close> is nonzero and divides the size, the width is \<open>new_width\<close>, the height is
  the quotient and nothing is reported. When \<open>new_width\<close> is 0 or does not divide the
  size, the points are assigned all the same, the cloud falls back to width = size and
  height = 1, and one diagnostic is emitted. Whatever the size, the call throws only when
  the buffer's own assignment throws: the mismatch is never a failure.
\<close>

theorem assign_width_policy:
  "(sov_assign xs (points c) = Inr b \<and> length xs < 2 ^ 32 \<longrightarrow>
      assign_range_width xs w c =
        (if w = 0 then ([ZeroWidthWarning],
                        Inr (c\<lparr>points := b, width := of_nat (length xs), height := 1\<rparr>))
         else if unat w dvd length xs
           then ([], Inr (c\<lparr>points := b, width := w,
                           height := of_nat (length xs div unat w)\<rparr>))
         else ([MismatchWarning (ucast w) (of_nat (length xs))],
               Inr (c\<lparr>points := b, width := of_nat (length xs), height := 1\<rparr>))) \<and>
      elems b = xs \<and> unat (of_nat (length xs) :: uint32_t) = length xs \<and>
      unat (of_nat (length xs div unat w) :: uint32_t) = length xs div unat w) \<and>
   assign_ilist_width xs w c = assign_range_width xs w c \<and>
   ((\<exists>x. snd (assign_range_width xs w c) = Inl x) = (\<exists>e. sov_assign xs (points c) = Inl e))"
proof -
  have a: "sov_assign xs (points c) = Inr b \<and> length xs < 2 ^ 32 \<longrightarrow>
      assign_range_width xs w c =
        (if w = 0 then ([ZeroWidthWarning],
                        Inr (c\<lparr>points := b, width := of_nat (length xs), height := 1\<rparr>))
         else if unat w dvd length xs
           then ([], Inr (c\<lparr>points := b, width := w,
                           height := of_nat (length xs div unat w)\<rparr>))
         else ([MismatchWarning (ucast w) (of_nat (length xs))],
               Inr (c\<lparr>points := b, width := of_nat (length xs), height := 1\<rparr>)))"
    by (rule impI) (erule conjE, rule assign_range_width_policy)
  have b: "sov_assign xs (points c) = Inr b \<longrightarrow> elems b = xs"
    by (rule impI) (rule sov_assign_length)
  have c: "length xs < 2 ^ 32 \<longrightarrow> unat (of_nat (length xs) :: uint32_t) = length xs"
    by (simp add: unat_of_nat_32)
  have "length xs < 2 ^ 32 \<longrightarrow> length xs div unat w < 2 ^ 32"
    by (meson div_le_dividend le_less_trans)
  then have d: "length xs < 2 ^ 32 \<longrightarrow>
      unat (of_nat (length xs div unat w) :: uint32_t) = length xs div unat w"
    by (simp add: unat_of_nat_32)
  have e: "assign_ilist_width xs w c = assign_range_width xs w c"
    by (rule assign_ilist_width_eq)
  have f: "(\<exists>x. snd (assign_range_width xs w c) = Inl x) = (\<exists>e. sov_assign xs (points c) = Inl e)"
    by (rule assign_range_width_throws)
  from a b c d e f show ?thesis by blast
qed

theorem assign_width_policy_witness:
  "sov_assign [1, 2, 3, 4] (points empty_cloud) = Inr \<lparr>mode = Owning, elems = [1, 2, 3, 4]\<rparr> \<and>
   length [1, 2, 3, 4 :: nat] < 2 ^ 32 \<and>
   assign_range_width [1, 2, 3, 4] 2 empty_cloud = ([], Inr four_points_2x2) \<and>
   assign_range_width [1, 2, 3] 2 empty_cloud = ([MismatchWarning 2 3], Inr three_points) \<and>
   assign_range_width [1, 2, 3] 0 empty_cloud = ([ZeroWidthWarning], Inr three_points)"
  using assign_width_policy [of "[1, 2, 3, 4]" empty_cloud "\<lparr>mode = Owning, elems = [1, 2, 3, 4]\<rparr>" 2]
    assign_width_policy [of "[1, 2, 3]" empty_cloud "\<lparr>mode = Owning, elems = [1, 2, 3]\<rparr>" 2]
    assign_width_policy [of "[1, 2, 3]" empty_cloud "\<lparr>mode = Owning, elems = [1, 2, 3]\<rparr>" 0]
  by (simp add: sov_assign_def sov_max_size_def empty_cloud_def PointCloud_default_def
      four_points_2x2_def three_points_def)

text \<open>
  C6 as stated fails once the size reaches \<open>2 ^ 32\<close>: \<open>2 ^ 32\<close> points assigned with
  \<open>new_width = 2\<close>, which is nonzero and divides the size, fall back to width 0 and
  height 1 with a diagnostic, because the test \<open>width * height != size()\<close> multiplies in
  32 bits. It also fails for a negative \<open>new_width\<close>: \<open>-1\<close> divides 3, and three points
  assigned with \<open>new_width = -1\<close> fall back to width 3 and height 1.
\<close>

theorem assign_width_counterexample:
  "(2 :: index_t) \<noteq> 0 \<and> (2 :: nat) dvd 4294967296 \<and>
   assign_range_width (replicate 4294967296 0) 2 empty_cloud
     = ([MismatchWarning 2 4294967296], Inr overflown_cloud) \<and>
   width overflown_cloud = 0 \<and> height overflown_cloud = 1 \<and>
   sint (4294967295 :: index_t) = - 1 \<and> (- 1 :: int) dvd 3 \<and>
   assign_range_width [1, 2, 3] 4294967295 empty_cloud
     = ([MismatchWarning 4294967295 3], Inr three_points) \<and>
   width three_points = 3 \<and> height three_points = 1"
  by (simp add: assign_range_width_def sov_assign_def sov_max_size_def size_cloud_def
      sov_size_def Let_def overflown_cloud_def three_points_def empty_cloud_def
      PointCloud_default_def)

section \<open>Copying a subset\<close>

lemma unat_scast_nonneg:
  assumes "0 \<le> sint (k :: 32 word)"
  shows "unat (scast k :: size_t) = nat (sint k)"
proof -
  have "sint k < 2 ^ 31" using sint_lt [of k] by simp
  then have "sint k < 2 ^ 64" by simp
  have "uint (scast k :: size_t) = sint k mod 2 ^ LENGTH(64)"
    by (simp only: scast_eq uint_word_of_int)
  also have "\<dots> = sint k mod 2 ^ 64" by simp
  also have "\<dots> = sint k" using assms \<open>sint k < 2 ^ 64\<close> by simp
  finally have "uint (scast k :: size_t) = sint k" .
  then show ?thesis by (simp only: unat_eq_nat_uint)
qed

lemma copy_indices_result:
  assumes "\<forall>k \<in> set ks. 0 \<le> sint k \<and> nat (sint k) < length src"
    and "i + length ks \<le> length pts"
  shows "copy_indices src ks i pts
    = Inr (take i pts @ map (\<lambda>k. src ! nat (sint k)) ks @ drop (i + length ks) pts)"
  using assms
proof (induction ks arbitrary: i pts)
  case Nil
  then show ?case by simp
next
  case (Cons k ks)
  let ?v = "src ! nat (sint k)"
  from Cons.prems have k: "0 \<le> sint k" "nat (sint k) < length src" by simp_all
  have u: "unat (scast k :: size_t) = nat (sint k)" using k(1) by (rule unat_scast_nonneg)
  from Cons.prems have i: "i < length pts" by simp
  from Cons.prems have rest: "\<forall>k \<in> set ks. 0 \<le> sint k \<and> nat (sint k) < length src" by simp
  from Cons.prems have room: "Suc i + length ks \<le> length (pts[i := ?v])" by simp
  have "copy_indices src (k # ks) i pts = copy_indices src ks (Suc i) (pts[i := ?v])"
    using k i by (simp add: u)
  also have "\<dots> = Inr (take (Suc i) (pts[i := ?v]) @ map (\<lambda>k. src ! nat (sint k)) ks
      @ drop (Suc i + length ks) (pts[i := ?v]))"
    using rest room by (rule Cons.IH)
  also have "take (Suc i) (pts[i := ?v]) = take i pts @ [?v]"
    using i by (simp add: take_Suc_conv_app_nth)
  also have "drop (Suc i + length ks) (pts[i := ?v]) = drop (i + length (k # ks)) pts"
    by simp
  finally show ?case by simp
qed

lemma PointCloud_subset_result:
  assumes "\<forall>k \<in> set indices. 0 \<le> sint k \<and> nat (sint k) < length (elems (points pc))"
    and "length indices \<le> length (elems (points pc))"
    and "length indices \<le> sov_max_size"
  shows "PointCloud_subset dflt pc indices =
     Inr \<lparr>header = header pc,
          points = \<lparr>mode = Owning,
                    elems = map (\<lambda>k. elems (points pc) ! nat (sint k)) indices\<rparr>,
          width = of_nat (length indices), height = 1, is_dense = is_dense pc,
          sensor_origin = sensor_origin pc, sensor_orientation = sensor_orientation pc\<rparr>"
proof -
  have "copy_indices (elems (points pc)) indices 0 (replicate (length indices) dflt)
    = Inr (take 0 (replicate (length indices) dflt)
           @ map (\<lambda>k. elems (points pc) ! nat (sint k)) indices
           @ drop (0 + length indices) (replicate (length indices) dflt))"
    using assms(1) by (rule copy_indices_result) simp
  then have "copy_indices (elems (points pc)) indices 0 (replicate (length indices) dflt)
    = Inr (map (\<lambda>k. elems (points pc) ! nat (sint k)) indices)"
    by simp
  then show ?thesis
    using assms(2,3) by (simp add: PointCloud_subset_def sov_own_def)
qed

text \<open>
  C7 (amended). For every source cloud and every sequence of indices, each of them
  non-negative and smaller than the source length (a repeated or reordered index is fine),
  that is no longer than the source itself, as the constructor asserts, and shorter than
  \<open>2 ^ 32\<close>, the subset constructor returns an owning cloud with as many points as there
  are indices, width that number and height 1, the header, \<open>is_dense\<close> and the sensor
  pose of the source, and at every position \<open>i\<close> the source point of index \<open>indices[i]\<close>.
\<close>

theorem subset_copy:
  assumes "\<forall>k \<in> set indices. 0 \<le> sint k \<and> nat (sint k) < length (elems (points pc))"
    and "length indices \<le> length (elems (points pc))"
    and "length indices < 2 ^ 32"
  shows "\<exists>c. PointCloud_subset dflt pc indices = Inr c \<and>
     mode (points c) = Owning \<and>
     length (elems (points c)) = length indices \<and>
     unat (width c) = length indices \<and> height c = 1 \<and>
     is_dense c = is_dense pc \<and> header c = header pc \<and>
     sensor_origin c = sensor_origin pc \<and> sensor_orientation c = sensor_orientation pc \<and>
     (\<forall>i < length indices.
        elems (points c) ! i = elems (points pc) ! nat (sint (indices ! i)))"
proof -
  have "(2 :: nat) ^ 32 \<le> 2 ^ 63 - 1" by simp
  with assms(3) have "length indices \<le> sov_max_size" by (simp add: sov_max_size_def)
  with assms(1,2) have "PointCloud_subset dflt pc indices =
     Inr \<lparr>header = header pc,
          points = \<lparr>mode = Owning,
                    elems = map (\<lambda>k. elems (points pc) ! nat (sint k)) indices\<rparr>,
          width = of_nat (length indices), height = 1, is_dense = is_dense pc,
          sensor_origin = sensor_origin pc, sensor_orientation = sensor_orientation pc\<rparr>"
    by (rule PointCloud_subset_result)
  then show ?thesis using assms(3) by (simp add: unat_of_nat_32)
qed

theorem subset_copy_witness:
  "PointCloud_subset 0 borrowed_row [2, 0, 2] = Inr picked_202 \<and>
   0 \<le> sint (2 :: index_t) \<and> nat (sint (2 :: index_t)) < length (elems (points borrowed_row)) \<and>
   0 \<le> sint (0 :: index_t) \<and> nat (sint (0 :: index_t)) < length (elems (points borrowed_row)) \<and>
   length [2, 0, 2 :: index_t] \<le> length (elems (points borrowed_row)) \<and>
   length [2, 0, 2 :: index_t] < 2 ^ 32"
  using subset_copy [of "[2, 0, 2]" borrowed_row 0]
  by (simp add: PointCloud_subset_def sov_own_def sov_max_size_def borrowed_row_def
      picked_202_def empty_cloud_def PointCloud_default_def numeral_3_eq_3)

text \<open>
  C7 as stated fails when there are more indices than source points: the constructor
  asserts \<open>indices.size() <= pc.size()\<close>, and two indices into a source of one point stop
  there. It also fails on the width from \<open>2 ^ 32\<close> indices on: \<open>2 ^ 32\<close> indices into a
  source of \<open>2 ^ 32\<close> points, all of them the index 0, give \<open>2 ^ 32\<close> points of width 0.
\<close>

theorem subset_copy_counterexample:
  "0 \<le> sint (0 :: index_t) \<and> nat (sint (0 :: index_t)) < length (elems (points one_point)) \<and>
   PointCloud_subset 0 one_point [0, 0] = Inl AssertionFailed \<and>
   PointCloud_subset 0 overflown_cloud (replicate 4294967296 0) = Inr overflown_cloud \<and>
   length (elems (points overflown_cloud)) = 4294967296 \<and>
   unat (width overflown_cloud) = 0"
proof -
  have a: "0 \<le> sint (0 :: index_t) \<and> nat (sint (0 :: index_t)) < length (elems (points one_point))"
    by (simp add: one_point_def)
  have b: "PointCloud_subset 0 one_point [0, 0] = Inl AssertionFailed"
    by (simp add: PointCloud_subset_def sov_own_def sov_max_size_def one_point_def)
  have "PointCloud_subset 0 overflown_cloud (replicate 4294967296 0) =
     Inr \<lparr>header = header overflown_cloud,
          points = \<lparr>mode = Owning,
                    elems = map (\<lambda>k. elems (points overflown_cloud) ! nat (sint k))
                              (replicate 4294967296 (0 :: index_t))\<rparr>,
          width = of_nat (length (replicate 4294967296 (0 :: index_t))), height = 1,
          is_dense = is_dense overflown_cloud,
          sensor_origin = sensor_origin overflown_cloud,
          sensor_orientation = sensor_orientation overflown_cloud\<rparr>"
    by (rule PointCloud_subset_result)
       (simp_all add: overflown_cloud_def sov_max_size_def)
  then have c: "PointCloud_subset 0 overflown_cloud (replicate 4294967296 0) = Inr overflown_cloud"
    by (simp add: overflown_cloud_def empty_cloud_def PointCloud_default_def)
  have d: "length (elems (points overflown_cloud)) = 4294967296 \<and>
      unat (width overflown_cloud) = 0"
    by (simp add: overflown_cloud_def)
  from a b c d show ?thesis by simp
qed

end
